theory Spec2Isabelle
  imports Complex_Main "HOL-Library.Word" "HOL-Library.Monad_Syntax" "HOL-Library.Multiset"
begin

unbundle bit_operations_syntax

section \<open>Values shared by the generator and the cache\<close>

text \<open>
  NumPy floating-point cells are modelled as real numbers extended by the one special
  value the pipeline can produce, \<open>NaN\<close> (from \<open>0/0\<close> in the per-chunk
  normalisation). Rounding of the binary formats is not modelled: arithmetic on finite
  cells is exact real arithmetic.
\<close>

datatype npfloat = Fin real | NaN

type_synonym 'a grid = "'a list list"

type_synonym uint8 = "8 word"

text \<open>
  The chunk dictionary \<open>{'height': ..., 'water': ..., 'biome': ...}\<close> as produced by
  \<open>WorldGenerator.generate_chunk\<close>: a float32 grid, a boolean grid and a uint8 grid
  (\<open>np.zeros_like(height_map, dtype=np.uint8)\<close>).
\<close>

record chunk_data =
  height :: "npfloat grid"
  water :: "bool grid"
  biome :: "uint8 grid"

datatype py_error = KeyError

section \<open>chunk_manager.py\<close>

text \<open>The optimized dictionary stored in the cache: three uint8 grids.\<close>

record optimized_chunk =
  oheight :: "uint8 grid"
  owater :: "uint8 grid"
  obiome :: "uint8 grid"

text \<open>\<open>int(x)\<close> and the C conversion of a float to an integer: truncation toward zero.\<close>

definition trunc :: "real \<Rightarrow> int" where
  "trunc r = (if r < 0 then \<lceil>r\<rceil> else \<lfloor>r\<rfloor>)"

text \<open>
  \<open>ndarray.astype(np.uint8)\<close> on a float array is the C conversion: the fraction is
  dropped, and the result is defined when the truncated value fits the type, that is for
  a value in \<open>(-1, 256)\<close>. For any other value, and for \<open>NaN\<close>, C leaves the result
  undefined and NumPy stores what the platform's conversion yields: that conversion is a
  parameter of the model.
\<close>

type_synonym platform_cast = "npfloat \<Rightarrow> uint8"

fun float_astype_uint8 :: "platform_cast \<Rightarrow> npfloat \<Rightarrow> uint8" where
  "float_astype_uint8 conv (Fin r) =
     (if - 1 < r \<and> r < 256 then word_of_int (trunc r) else conv (Fin r))"
| "float_astype_uint8 conv NaN = conv NaN"

definition bool_astype_uint8 :: "bool \<Rightarrow> uint8" where
  "bool_astype_uint8 b = (if b then 1 else 0)"

definition uint8_astype_bool :: "uint8 \<Rightarrow> bool" where
  "uint8_astype_bool w = (w \<noteq> 0)"

fun fmul :: "npfloat \<Rightarrow> real \<Rightarrow> npfloat" where
  "fmul (Fin a) c = Fin (a * c)"
| "fmul NaN c = NaN"

text \<open>\<open>(chunk_data['height'] * 255).astype(np.uint8)\<close>, one cell.\<close>

definition quantize :: "platform_cast \<Rightarrow> npfloat \<Rightarrow> uint8" where
  "quantize conv h = float_astype_uint8 conv (fmul h 255)"

text \<open>\<open>chunk['height'].astype(np.float32) / 255.0\<close>, one cell.\<close>

definition dequantize :: "uint8 \<Rightarrow> npfloat" where
  "dequantize b = Fin (real_of_int (uint b) / 255)"

definition optimize :: "platform_cast \<Rightarrow> chunk_data \<Rightarrow> optimized_chunk" where
  "optimize conv d =
     \<lparr>oheight = map (map (quantize conv)) (height d),
      owater = map (map bool_astype_uint8) (water d),
      obiome = biome d\<rparr>"

definition restore :: "optimized_chunk \<Rightarrow> chunk_data" where
  "restore c =
     \<lparr>height = map (map dequantize) (oheight c),
      water = map (map uint8_astype_bool) (owater c),
      biome = obiome c\<rparr>"

type_synonym coord = "int \<times> int"

text \<open>
  The \<open>OrderedDict\<close>: an association list, oldest entry first, keys distinct.
\<close>

record ChunkManager =
  max_chunks :: int
  chunks :: "(coord \<times> optimized_chunk) list"

definition ChunkManager_init :: "int \<Rightarrow> ChunkManager" where
  "ChunkManager_init max_chunks_in_memory =
     \<lparr>max_chunks = max_chunks_in_memory, chunks = []\<rparr>"

text \<open>
  \<open>d[k] = v\<close> on an ordered dictionary: an existing key keeps its position and gets
  the new value, a new key goes to the end.
\<close>

fun setitem :: "'k \<Rightarrow> 'v \<Rightarrow> ('k \<times> 'v) list \<Rightarrow> ('k \<times> 'v) list" where
  "setitem k v [] = [(k, v)]"
| "setitem k v ((k', v') # rest) =
     (if k' = k then (k, v) # rest else (k', v') # setitem k v rest)"

text \<open>\<open>d.popitem(last=False)\<close>: drops the first entry, \<open>KeyError\<close> on an empty one.\<close>

fun popitem_first :: "('k \<times> 'v) list \<Rightarrow> py_error + ('k \<times> 'v) list" where
  "popitem_first [] = Inl KeyError"
| "popitem_first (e # rest) = Inr rest"

fun getitem :: "('k \<times> 'v) list \<Rightarrow> 'k \<Rightarrow> 'v option" where
  "getitem [] k = None"
| "getitem ((k', v') # rest) k = (if k' = k then Some v' else getitem rest k)"

text \<open>\<open>d.move_to_end(k)\<close> for a key that is present.\<close>

definition move_to_end :: "'k \<Rightarrow> ('k \<times> 'v) list \<Rightarrow> ('k \<times> 'v) list" where
  "move_to_end k d =
     (case getitem d k of
        None \<Rightarrow> d
      | Some v \<Rightarrow> filter (\<lambda>e. fst e \<noteq> k) d @ [(k, v)])"

text \<open>
  \<open>add_chunk\<close>; its first argument is the platform's conversion used by \<open>astype\<close>.
\<close>

definition add_chunk ::
  "platform_cast \<Rightarrow> int \<Rightarrow> int \<Rightarrow> chunk_data \<Rightarrow> ChunkManager \<Rightarrow> py_error + ChunkManager" where
  "add_chunk conv x y d m =
     (let optimized = optimize conv d in
      if int (length (chunks m)) \<ge> max_chunks m then
        (case popitem_first (chunks m) of
           Inl e \<Rightarrow> Inl e
         | Inr rest \<Rightarrow> Inr (m\<lparr>chunks := setitem (x, y) optimized rest\<rparr>))
      else Inr (m\<lparr>chunks := setitem (x, y) optimized (chunks m)\<rparr>))"

definition get_chunk :: "int \<Rightarrow> int \<Rightarrow> ChunkManager \<Rightarrow> chunk_data option \<times> ChunkManager" where
  "get_chunk x y m =
     (case getitem (chunks m) (x, y) of
        None \<Rightarrow> (None, m)
      | Some c \<Rightarrow> (Some (restore c), m\<lparr>chunks := move_to_end (x, y) (chunks m)\<rparr>))"

definition get_chunk_raw :: "int \<Rightarrow> int \<Rightarrow> ChunkManager \<Rightarrow> optimized_chunk option" where
  "get_chunk_raw x y m = getitem (chunks m) (x, y)"

text \<open>A sequence of \<open>add_chunk\<close> calls; the first exception ends it.\<close>

fun add_chunks ::
  "platform_cast \<Rightarrow> (coord \<times> chunk_data) list \<Rightarrow> ChunkManager \<Rightarrow> py_error + ChunkManager" where
  "add_chunks conv [] m = Inr m"
| "add_chunks conv (((x, y), d) # rest) m =
     (case add_chunk conv x y d m of Inl e \<Rightarrow> Inl e | Inr m' \<Rightarrow> add_chunks conv rest m')"

definition keys :: "ChunkManager \<Rightarrow> coord list" where
  "keys m = map fst (chunks m)"

section \<open>The \<open>random\<close> module\<close>

text \<open>
  The standard library's process-global generator is not part of the repository; the
  model takes it as a parameter. \<open>'g\<close> is the state of the global generator.
  \<open>seed_int s\<close> is the state installed by \<open>random.seed(s)\<close> for an integer \<open>s\<close>;
  \<open>seed_none g\<close> is what \<open>random.seed(None)\<close> installs (taken from the operating
  system, so an arbitrary parameter of a run); \<open>random\<close> and \<open>shuffle\<close> return their
  result and the advanced state.
\<close>

record 'g random_module =
  seed_int :: "int \<Rightarrow> 'g"
  seed_none :: "'g \<Rightarrow> 'g"
  random :: "'g \<Rightarrow> real \<times> 'g"
  shuffle :: "int list \<Rightarrow> 'g \<Rightarrow> int list \<times> 'g"

definition random_seed :: "'g random_module \<Rightarrow> int option \<Rightarrow> 'g \<Rightarrow> 'g" where
  "random_seed R a g = (case a of None \<Rightarrow> seed_none R g | Some s \<Rightarrow> seed_int R s)"

section \<open>noise.py\<close>

subsection \<open>PerlinNoise\<close>

record PerlinNoise =
  permutation :: "int list"

definition PerlinNoise_init :: "'g random_module \<Rightarrow> 'g \<Rightarrow> PerlinNoise \<times> 'g" where
  "PerlinNoise_init R g =
     (let (p, g') = shuffle R [0..255] g
      in (\<lparr>permutation = p @ p\<rparr>, g'))"

definition fade :: "real \<Rightarrow> real" where
  "fade t = t * t * t * (t * (t * 6 - 15) + 10)"

definition lerp :: "real \<Rightarrow> real \<Rightarrow> real \<Rightarrow> real" where
  "lerp t a b = a + t * (b - a)"

definition grad :: "int \<Rightarrow> real \<Rightarrow> real \<Rightarrow> real \<Rightarrow> real" where
  "grad hash x y z =
     (let h = hash AND 15;
          u = (if h < 8 then x else y);
          v = (if h < 4 then y else if h = 12 \<or> h = 14 then x else z)
      in (if h AND 1 = 0 then u else - u) + (if h AND 2 = 0 then v else - v))"

text \<open>
  Python list indexing: a negative index counts from the end, an index out of range
  raises \<open>IndexError\<close> (\<open>None\<close> here).
\<close>

definition list_getitem :: "'a list \<Rightarrow> int \<Rightarrow> 'a option" where
  "list_getitem xs i =
     (if 0 \<le> i \<and> i < int (length xs) then Some (xs ! nat i)
      else if i < 0 \<and> - int (length xs) \<le> i then Some (xs ! nat (int (length xs) + i))
      else None)"

definition noise :: "PerlinNoise \<Rightarrow> real \<Rightarrow> real \<Rightarrow> real \<Rightarrow> real option" where
  "noise P x0 y0 z0 =
     (let p = permutation P;
          X = \<lfloor>x0\<rfloor> AND 255;
          Y = \<lfloor>y0\<rfloor> AND 255;
          Z = \<lfloor>z0\<rfloor> AND 255;
          x = x0 - of_int \<lfloor>x0\<rfloor>;
          y = y0 - of_int \<lfloor>y0\<rfloor>;
          z = z0 - of_int \<lfloor>z0\<rfloor>;
          u = fade x;
          v = fade y;
          w = fade z
      in do {
        pX \<leftarrow> list_getitem p X;
        let A = pX + Y;
        pA \<leftarrow> list_getitem p A;
        let AA = pA + Z;
        pA1 \<leftarrow> list_getitem p (A + 1);
        let AB = pA1 + Z;
        pX1 \<leftarrow> list_getitem p (X + 1);
        let B = pX1 + Y;
        pB \<leftarrow> list_getitem p B;
        let BA = pB + Z;
        pB1 \<leftarrow> list_getitem p (B + 1);
        let BB = pB1 + Z;
        hAA \<leftarrow> list_getitem p AA;
        hBA \<leftarrow> list_getitem p BA;
        hAB \<leftarrow> list_getitem p AB;
        hBB \<leftarrow> list_getitem p BB;
        hAA1 \<leftarrow> list_getitem p (AA + 1);
        hBA1 \<leftarrow> list_getitem p (BA + 1);
        hAB1 \<leftarrow> list_getitem p (AB + 1);
        hBB1 \<leftarrow> list_getitem p (BB + 1);
        Some (lerp w
          (lerp v
            (lerp u (grad hAA x y z) (grad hBA (x - 1) y z))
            (lerp u (grad hAB x (y - 1) z) (grad hBB (x - 1) (y - 1) z)))
          (lerp v
            (lerp u (grad hAA1 x y (z - 1)) (grad hBA1 (x - 1) y (z - 1)))
            (lerp u (grad hAB1 x (y - 1) (z - 1)) (grad hBB1 (x - 1) (y - 1) (z - 1)))))
      })"

subsection \<open>ValueNoise\<close>

record ValueNoise =
  grid :: "int \<times> int \<rightharpoonup> real"

definition ValueNoise_init :: "'g random_module \<Rightarrow> int option \<Rightarrow> 'g \<Rightarrow> ValueNoise \<times> 'g" where
  "ValueNoise_init R seed g = (\<lparr>grid = Map.empty\<rparr>, random_seed R seed g)"

text \<open>
  The methods of \<open>ValueNoise\<close> change the object's \<open>grid\<close> and the global generator:
  both are passed in and returned.
\<close>

definition get_value ::
  "'g random_module \<Rightarrow> real \<Rightarrow> real \<Rightarrow> ValueNoise \<times> 'g \<Rightarrow> real \<times> (ValueNoise \<times> 'g)" where
  "get_value R x y s =
     (let (V, g) = s; coords = (trunc x, trunc y)
      in case grid V coords of
           None \<Rightarrow> (let (r, g') = random R g in (r, (V\<lparr>grid := (grid V)(coords \<mapsto> r)\<rparr>, g')))
         | Some r \<Rightarrow> (r, (V, g)))"

definition smooth_noise ::
  "'g random_module \<Rightarrow> real \<Rightarrow> real \<Rightarrow> ValueNoise \<times> 'g \<Rightarrow> real \<times> (ValueNoise \<times> 'g)" where
  "smooth_noise R x y s0 =
     (let (c1, s1) = get_value R (of_int \<lfloor>x\<rfloor>) (of_int \<lfloor>y\<rfloor>) s0;
          (c2, s2) = get_value R (of_int \<lfloor>x\<rfloor>) (of_int \<lceil>y\<rceil>) s1;
          (c3, s3) = get_value R (of_int \<lceil>x\<rceil>) (of_int \<lfloor>y\<rfloor>) s2;
          (c4, s4) = get_value R (of_int \<lceil>x\<rceil>) (of_int \<lceil>y\<rceil>) s3;
          corners = (c1 + c2 + c3 + c4) / 16;
          (e1, s5) = get_value R (of_int \<lfloor>x\<rfloor>) y s4;
          (e2, s6) = get_value R x (of_int \<lfloor>y\<rfloor>) s5;
          (e3, s7) = get_value R (of_int \<lceil>x\<rceil>) y s6;
          (e4, s8) = get_value R x (of_int \<lceil>y\<rceil>) s7;
          sides = (e1 + e2 + e3 + e4) / 8;
          (m, s9) = get_value R x y s8;
          center = m / 4
      in (corners + sides + center, s9))"

section \<open>world_gen.py\<close>

record WorldGenerator =
  chunk_size :: int
  water_level :: real
  perlin :: PerlinNoise
  "value" :: ValueNoise
  terrain_scales :: "(real \<times> real) list"

definition WorldGenerator_init ::
  "'g random_module \<Rightarrow> int \<Rightarrow> int option \<Rightarrow> real \<Rightarrow> 'g \<Rightarrow> WorldGenerator \<times> 'g" where
  "WorldGenerator_init R chunk_size0 seed water_level0 g =
     (let (P, g1) = PerlinNoise_init R g;
          (V, g2) = ValueNoise_init R seed g1
      in (\<lparr>chunk_size = chunk_size0, water_level = water_level0, perlin = P, value = V,
           terrain_scales = [(30, 1), (100, 8 / 10), (50, 4 / 10), (25, 2 / 10), (10, 1 / 10)]\<rparr>,
          g2))"

text \<open>\<open>height_map[y, x] += v\<close>; the loops below keep \<open>y\<close> and \<open>x\<close> inside the array.\<close>

definition add_at :: "nat \<Rightarrow> nat \<Rightarrow> real \<Rightarrow> real grid \<Rightarrow> real grid" where
  "add_at y x v hm = hm[y := (hm ! y)[x := hm ! y ! x + v]]"

text \<open>The body of the innermost loop: the amount added to cell \<open>(y, x)\<close> for one octave.\<close>

definition octave_sample ::
  "'g random_module \<Rightarrow> WorldGenerator \<Rightarrow> real \<Rightarrow> real \<Rightarrow> int \<Rightarrow> int \<Rightarrow> int \<Rightarrow> int \<Rightarrow>
     ValueNoise \<times> 'g \<Rightarrow> (real \<times> (ValueNoise \<times> 'g)) option" where
  "octave_sample R G scale weight x_offset y_offset y x s =
     (let world_x = x + x_offset * chunk_size G;
          world_y = y + y_offset * chunk_size G
      in do {
        n1 \<leftarrow> noise (perlin G) (of_int world_x / scale) (of_int world_y / scale) 0;
        n2 \<leftarrow> noise (perlin G) (of_int world_x / (scale * (3 / 10)))
                (of_int world_y / (scale * (3 / 10))) 0;
        let perlin_val = (n1 + 1) * (5 / 10) * (7 / 10) + (n2 + 1) * (5 / 10) * (3 / 10);
        let (sn, s') = smooth_noise R (of_int world_x / scale) (of_int world_y / scale) s;
        let value_val = (sn + 1) * (5 / 10);
        Some ((perlin_val * (9 / 10) + value_val * (1 / 10)) * weight, s')
      })"

fun x_loop ::
  "'g random_module \<Rightarrow> WorldGenerator \<Rightarrow> real \<Rightarrow> real \<Rightarrow> int \<Rightarrow> int \<Rightarrow> int \<Rightarrow> int list \<Rightarrow>
     real grid \<times> (ValueNoise \<times> 'g) \<Rightarrow> (real grid \<times> (ValueNoise \<times> 'g)) option" where
  "x_loop R G scale weight x_offset y_offset y [] acc = Some acc"
| "x_loop R G scale weight x_offset y_offset y (x # xs) (height_map, s) = do {
     (v, s') \<leftarrow> octave_sample R G scale weight x_offset y_offset y x s;
     x_loop R G scale weight x_offset y_offset y xs (add_at (nat y) (nat x) v height_map, s')
   }"

fun y_loop ::
  "'g random_module \<Rightarrow> WorldGenerator \<Rightarrow> real \<Rightarrow> real \<Rightarrow> int \<Rightarrow> int \<Rightarrow> int list \<Rightarrow>
     real grid \<times> (ValueNoise \<times> 'g) \<Rightarrow> (real grid \<times> (ValueNoise \<times> 'g)) option" where
  "y_loop R G scale weight x_offset y_offset [] acc = Some acc"
| "y_loop R G scale weight x_offset y_offset (y # ys) acc = do {
     acc' \<leftarrow> x_loop R G scale weight x_offset y_offset y [0..chunk_size G - 1] acc;
     y_loop R G scale weight x_offset y_offset ys acc'
   }"

fun scale_loop ::
  "'g random_module \<Rightarrow> WorldGenerator \<Rightarrow> int \<Rightarrow> int \<Rightarrow> (real \<times> real) list \<Rightarrow>
     real grid \<times> (ValueNoise \<times> 'g) \<Rightarrow> (real grid \<times> (ValueNoise \<times> 'g)) option" where
  "scale_loop R G x_offset y_offset [] acc = Some acc"
| "scale_loop R G x_offset y_offset ((scale, weight) # rest) acc = do {
     acc' \<leftarrow> y_loop R G scale weight x_offset y_offset [0..chunk_size G - 1] acc;
     scale_loop R G x_offset y_offset rest acc'
   }"

text \<open>
  \<open>(height_map - height_map.min()) / (height_map.max() - height_map.min())\<close>.
  \<open>min()\<close> of an empty array raises \<open>ValueError\<close> (\<open>None\<close>). When the maximum equals
  the minimum every cell is \<open>0/0\<close>, which NumPy evaluates to \<open>NaN\<close>.
\<close>

definition normalize :: "real grid \<Rightarrow> npfloat grid option" where
  "normalize height_map =
     (let cells = concat height_map
      in if cells = [] then None
         else let mn = Min (set cells); mx = Max (set cells)
              in Some (map (map (\<lambda>h. if mx - mn = 0 then NaN else Fin ((h - mn) / (mx - mn))))
                        height_map))"

text \<open>\<open>np.power\<close>, the affine map and \<open>np.clip\<close> on one cell; each passes \<open>NaN\<close> on.\<close>

fun fpower :: "npfloat \<Rightarrow> real \<Rightarrow> npfloat" where
  "fpower (Fin a) e = (if a < 0 then NaN else Fin (a powr e))"
| "fpower NaN e = NaN"

fun fsub :: "npfloat \<Rightarrow> real \<Rightarrow> npfloat" where
  "fsub (Fin a) c = Fin (a - c)"
| "fsub NaN c = NaN"

fun fclip :: "npfloat \<Rightarrow> real \<Rightarrow> real \<Rightarrow> npfloat" where
  "fclip (Fin a) lo hi = Fin (min (max a lo) hi)"
| "fclip NaN lo hi = NaN"

text \<open>Comparisons with \<open>NaN\<close> are false.\<close>

fun flt :: "npfloat \<Rightarrow> real \<Rightarrow> bool" where
  "flt (Fin a) b = (a < b)"
| "flt NaN b = False"

fun fge :: "npfloat \<Rightarrow> real \<Rightarrow> bool" where
  "fge (Fin a) b = (a \<ge> b)"
| "fge NaN b = False"

text \<open>Lines 106 to 109 of \<open>generate_chunk\<close>.\<close>

definition shape_height :: "real grid \<Rightarrow> npfloat grid option" where
  "shape_height acc = do {
     h1 \<leftarrow> normalize acc;
     let h2 = map (map (\<lambda>h. fpower h (14 / 10))) h1;
     let h3 = map (map (\<lambda>h. fsub (fmul h (13 / 10)) (15 / 100))) h2;
     let h4 = map (map (\<lambda>h. fclip h 0 1)) h3;
     Some h4
   }"

text \<open>Elementwise operations on boolean grids and the masked assignment \<open>a[mask] = v\<close>.\<close>

definition gnot :: "bool grid \<Rightarrow> bool grid" where
  "gnot a = map (map Not) a"

definition gand :: "bool grid \<Rightarrow> bool grid \<Rightarrow> bool grid" where
  "gand a b = map2 (map2 (\<and>)) a b"

definition glt :: "npfloat grid \<Rightarrow> real \<Rightarrow> bool grid" where
  "glt a c = map (map (\<lambda>h. flt h c)) a"

definition gge :: "npfloat grid \<Rightarrow> real \<Rightarrow> bool grid" where
  "gge a c = map (map (\<lambda>h. fge h c)) a"

definition assign_where :: "bool grid \<Rightarrow> 'a \<Rightarrow> 'a grid \<Rightarrow> 'a grid" where
  "assign_where m v a = map2 (map2 (\<lambda>b c. if b then v else c)) m a"

definition generate_biomes :: "WorldGenerator \<Rightarrow> npfloat grid \<Rightarrow> bool grid \<Rightarrow> uint8 grid" where
  "generate_biomes G height_map water_mask =
     (let biome_map = map (map (\<lambda>_. 0)) height_map;
          biome_map = assign_where water_mask 0 biome_map;
          biome_map = assign_where
            (gand (gnot water_mask) (glt height_map (water_level G + 8 / 100))) 1 biome_map;
          biome_map = assign_where
            (gand (gand (gnot water_mask) (gge height_map (water_level G + 8 / 100)))
               (glt height_map (65 / 100))) 2 biome_map;
          biome_map = assign_where
            (gand (gand (gnot water_mask) (gge height_map (65 / 100)))
               (glt height_map (85 / 100))) 3 biome_map;
          biome_map = assign_where
            (gand (gnot water_mask) (gge height_map (85 / 100))) 4 biome_map
      in biome_map)"

text \<open>
  \<open>generate_chunk\<close> returns the chunk together with the generator (whose value-noise
  lattice has grown) and the global random state. \<open>np.zeros\<close> raises \<open>ValueError\<close>
  for a negative size.
\<close>

definition generate_chunk ::
  "'g random_module \<Rightarrow> WorldGenerator \<Rightarrow> int \<Rightarrow> int \<Rightarrow> 'g \<Rightarrow>
     (chunk_data \<times> WorldGenerator \<times> 'g) option" where
  "generate_chunk R G x_offset y_offset g =
     (if chunk_size G < 0 then None
      else do {
        let height_map = replicate (nat (chunk_size G)) (replicate (nat (chunk_size G)) 0);
        (acc, (V, g')) \<leftarrow>
          scale_loop R G x_offset y_offset (terrain_scales G) (height_map, (value G, g));
        height_map \<leftarrow> shape_height acc;
        let water_mask = glt height_map (water_level G);
        let biome_map = generate_biomes G height_map water_mask;
        Some (\<lparr>height = height_map, water = water_mask, biome = biome_map\<rparr>,
              G\<lparr>value := V\<rparr>, g')
      })"

section \<open>A concrete generator for evaluating the model\<close>

text \<open>
  A small stand-in for the \<open>random\<close> module, used only where a theorem is evaluated on
  concrete inputs: a linear congruential generator, with \<open>shuffle\<close> written the way the
  standard library writes it (from the last index down, swap with a random earlier one).
\<close>

definition lcg_next :: "int \<Rightarrow> int" where
  "lcg_next s = (s * 1103515245 + 12345) mod 2147483648"

definition swap :: "nat \<Rightarrow> nat \<Rightarrow> 'a list \<Rightarrow> 'a list" where
  "swap i j xs = xs[i := xs ! j, j := xs ! i]"

fun lcg_shuffle_loop :: "nat \<Rightarrow> int list \<Rightarrow> int \<Rightarrow> int list \<times> int" where
  "lcg_shuffle_loop 0 xs s = (xs, s)"
| "lcg_shuffle_loop (Suc i) xs s =
     (if i = 0 then (xs, s)
      else let s' = lcg_next s; j = nat ((s' div 65536) mod (int i + 1))
           in lcg_shuffle_loop i (swap i j xs) s')"

definition lcg :: "int random_module" where
  "lcg = \<lparr>seed_int = (\<lambda>s. \<bar>s\<bar> mod 2147483648),
          seed_none = lcg_next,
          random = (\<lambda>g. let g' = lcg_next g in (real_of_int g' / 2147483648, g')),
          shuffle = (\<lambda>xs g. lcg_shuffle_loop (length xs) xs g)\<rparr>"

text \<open>
  A platform conversion for the concrete evaluations: every value that does not fit is
  stored as 0.
\<close>

definition zero_cast :: platform_cast where
  "zero_cast h = 0"

text \<open>A one-cell chunk used in the concrete evaluations.\<close>

definition chunk0 :: chunk_data where
  "chunk0 = \<lparr>height = [[Fin (1/2)]], water = [[False]], biome = [[2]]\<rparr>"

section \<open>Predicates used in the statements\<close>

text \<open>Every value memoized in the lattice lies in \<open>[0, 1)\<close>.\<close>

definition unit_range :: "ValueNoise \<Rightarrow> bool" where
  "unit_range V = (\<forall>k v. grid V k = Some v \<longrightarrow> 0 \<le> v \<and> v < 1)"

text \<open>
  The biome of a cell as the specification words it: water cells are Ocean, the other
  cells take the first rule that matches, in the order Beach, Plains, Forest, Mountains.
\<close>

definition claimed_biome :: "real \<Rightarrow> real \<Rightarrow> uint8" where
  "claimed_biome wl h =
     (if h < wl then 0
      else if h < wl + 8 / 100 then 1
      else if h < 65 / 100 then 2
      else if h < 85 / 100 then 3
      else 4)"

text \<open>
  The biome the five masked assignments of \<open>_generate_biomes\<close> leave in a cell: where two
  masks hold, the later assignment overwrites the earlier one; a \<open>NaN\<close> cell matches no
  mask and keeps the initial 0.
\<close>

definition assigned_biome :: "real \<Rightarrow> npfloat \<Rightarrow> uint8" where
  "assigned_biome wl h =
     (case h of
        NaN \<Rightarrow> 0
      | Fin a \<Rightarrow>
          if a < wl then 0
          else if a \<ge> 85 / 100 then 4
          else if a \<ge> 65 / 100 then 3
          else if a \<ge> wl + 8 / 100 then 2
          else 1)"

text \<open>Two generators used in the concrete evaluations, with water levels 0.4 and 0.7.\<close>

definition G4 :: WorldGenerator where
  "G4 = fst (WorldGenerator_init lcg 2 (Some 42) (4 / 10) 1)"

definition G7 :: WorldGenerator where
  "G7 = fst (WorldGenerator_init lcg 2 (Some 42) (7 / 10) 1)"

text \<open>
  A well-formed permutation table: 512 entries, each in \<open>[0, 255]\<close> (what
  \<open>PerlinNoise.__init__\<close> builds from any shuffle of \<open>range(256)\<close>).
\<close>

definition valid_table :: "int list \<Rightarrow> bool" where
  "valid_table p = (length p = 512 \<and> (\<forall>v \<in> set p. 0 \<le> v \<and> v \<le> 255))"

text \<open>An \<open>n\<close> by \<open>n\<close> array.\<close>

definition square :: "nat \<Rightarrow> 'a grid \<Rightarrow> bool" where
  "square n hm = (length hm = n \<and> (\<forall>row \<in> set hm. length row = n))"

text \<open>A generator of chunk size 1, for the concrete evaluations.\<close>

definition G1 :: WorldGenerator where
  "G1 = fst (WorldGenerator_init lcg 1 (Some 42) (4 / 10) 1)"

text \<open>
  The generator constructed with the same arguments as \<open>G4\<close> in the global state that the
  first \<open>G4.generate_chunk(0, 0)\<close> leaves behind (1668674806 for the concrete generator).
\<close>

definition G4b :: WorldGenerator where
  "G4b = fst (WorldGenerator_init lcg 2 (Some 42) (4 / 10) 1668674806)"

section \<open>Properties of the chunk cache\<close>

subsection \<open>Auxiliary facts about the ordered dictionary\<close>

lemma keys_setitem:
  "map fst (setitem k v d) = (if k \<in> fst ` set d then map fst d else map fst d @ [k])"
  by (induction d) (force+)

lemma getitem_setitem: "getitem (setitem k v d) k = Some v"
  by (induction d) auto

lemma getitem_setitem_other: "k' \<noteq> k \<Longrightarrow> getitem (setitem k v d) k' = getitem d k'"
  by (induction d) auto

lemma length_setitem:
  "length (setitem k v d) = (if k \<in> fst ` set d then length d else Suc (length d))"
  by (induction d) (force+)

lemma distinct_drop_append: "distinct (A @ R) \<Longrightarrow> distinct (drop n A @ R)"
  by (auto dest: in_set_dropD)

lemma add_chunk_new_key:
  assumes "1 \<le> max_chunks m" "(x, y) \<notin> set (keys m)" "int (length (chunks m)) \<le> max_chunks m"
  shows "\<exists>m'. add_chunk conv x y d m = Inr m' \<and> max_chunks m' = max_chunks m \<and>
           keys m' = drop (length (keys m @ [(x, y)]) - nat (max_chunks m)) (keys m @ [(x, y)])"
proof (cases "int (length (chunks m)) \<ge> max_chunks m")
  case True
  then have len: "length (chunks m) = nat (max_chunks m)" using assms by linarith
  then obtain e rest where er: "chunks m = e # rest" using assms(1) by (cases "chunks m") auto
  have "(x, y) \<notin> fst ` set rest" using assms(2) er by (auto simp: keys_def)
  then show ?thesis using True er len
    by (auto simp: add_chunk_def keys_def keys_setitem)
next
  case False
  then have "length (chunks m) < nat (max_chunks m)" by linarith
  moreover have "(x, y) \<notin> fst ` set (chunks m)" using assms(2) by (auto simp: keys_def)
  ultimately show ?thesis using False
    by (auto simp: add_chunk_def keys_def keys_setitem)
qed

lemma add_chunks_distinct:
  assumes "1 \<le> max_chunks m" "distinct (keys m @ map fst kds)"
    "int (length (chunks m)) \<le> max_chunks m"
  shows "\<exists>m'. add_chunks conv kds m = Inr m' \<and> max_chunks m' = max_chunks m \<and>
           keys m' = drop (length (keys m @ map fst kds) - nat (max_chunks m)) (keys m @ map fst kds)"
  using assms
proof (induction kds arbitrary: m)
  case Nil
  then show ?case by (simp add: keys_def)
next
  case (Cons kd kds)
  obtain x y d where kd: "kd = ((x, y), d)" by (metis prod.exhaust)
  have nk: "(x, y) \<notin> set (keys m)" using Cons.prems(2) kd by auto
  obtain m1 where m1: "add_chunk conv x y d m = Inr m1" "max_chunks m1 = max_chunks m"
    "keys m1 = drop (length (keys m @ [(x, y)]) - nat (max_chunks m)) (keys m @ [(x, y)])"
    using add_chunk_new_key[OF Cons.prems(1) nk Cons.prems(3)] by blast
  have "distinct ((keys m @ [(x, y)]) @ map fst kds)"
    using Cons.prems(2) kd by simp
  then have d1: "distinct (keys m1 @ map fst kds)"
    unfolding m1(3) by (rule distinct_drop_append)
  have "length (keys m1) \<le> nat (max_chunks m1)"
    unfolding m1(2,3) using Cons.prems(3) by (simp add: keys_def)
  then have l1: "int (length (chunks m1)) \<le> max_chunks m1"
    using Cons.prems(1) m1(2) by (simp add: keys_def)
  obtain m' where m': "add_chunks conv kds m1 = Inr m'" "max_chunks m' = max_chunks m1"
    "keys m' = drop (length (keys m1 @ map fst kds) - nat (max_chunks m1)) (keys m1 @ map fst kds)"
    using Cons.IH[of m1] m1(2) Cons.prems(1) d1 l1 by auto
  have "keys m' = drop (length (keys m @ map fst (kd # kds)) - nat (max_chunks m)) (keys m @ map fst (kd # kds))"
  proof (cases "length (keys m) < nat (max_chunks m)")
    case True
    then show ?thesis using m' m1 kd by simp
  next
    case False
    then have "length (keys m) = nat (max_chunks m)"
      using Cons.prems(3) by (simp add: keys_def)
    then show ?thesis using m' m1 kd Cons.prems(1)
      by (cases "keys m") (simp_all add: drop_Cons')
  qed
  then show ?case using m1 m' kd by simp
qed

lemma add_chunk_full:
  assumes "1 \<le> max_chunks m" "int (length (chunks m)) = max_chunks m"
  shows "\<exists>oldest rest. chunks m = oldest # rest \<and>
           add_chunk conv x y d m = Inr (m\<lparr>chunks := setitem (x, y) (optimize conv d) rest\<rparr>)"
proof -
  obtain e rest where er: "chunks m = e # rest" using assms by (cases "chunks m") auto
  then show ?thesis using assms by (simp add: add_chunk_def)
qed

lemma setitem_mem: "k \<in> fst ` set (setitem k v d)"
  by (induction d) (force+)

lemma keys_move_to_end:
  "getitem d k = Some v \<Longrightarrow> map fst (move_to_end k d) = filter (\<lambda>k'. k' \<noteq> k) (map fst d) @ [k]"
  by (simp add: move_to_end_def filter_map comp_def)

lemma trunc_nonneg: "0 \<le> r \<Longrightarrow> trunc r = \<lfloor>r\<rfloor>"
  by (simp add: trunc_def)

lemma uint_quantize_unit:
  assumes "0 \<le> h" "h \<le> 1"
  shows "uint (quantize conv (Fin h)) = \<lfloor>h * 255\<rfloor>"
proof -
  have "0 \<le> h * 255" "h * 255 \<le> 255" using assms by simp_all
  then have "0 \<le> \<lfloor>h * 255\<rfloor>" "\<lfloor>h * 255\<rfloor> \<le> 255"
    by (simp, simp add: floor_le_iff)
  moreover have "- 1 < h * 255" "h * 255 < 256" using assms by simp_all
  ultimately show ?thesis using assms by (simp add: quantize_def uint_word_of_int trunc_nonneg)
qed

lemma restore_optimize:
  "restore (optimize conv d) =
     \<lparr>height = map (map (\<lambda>h. dequantize (quantize conv h))) (height d), water = water d, biome = biome d\<rparr>"
  by (simp add: restore_def optimize_def comp_def uint8_astype_bool_def bool_astype_uint8_def)

lemma get_after_add:
  assumes "add_chunk conv x y d m = Inr m'"
  shows "fst (get_chunk x y m') = Some (restore (optimize conv d))"
proof -
  have "\<exists>rest. chunks m' = setitem (x, y) (optimize conv d) rest"
    using assms by (auto simp: add_chunk_def Let_def split: if_splits sum.splits)
  then show ?thesis by (auto simp: get_chunk_def getitem_setitem)
qed

subsection \<open>Eviction\<close>

text \<open>
  Claim C2. For a cache of capacity at least 1: when \<open>add_chunk\<close> is called on a cache
  that holds capacity entries, the oldest entry is removed first and the record is stored
  into what remains; this happens also when the key is already present (then, unless the
  key is the oldest one itself, the oldest key is gone and the cache is left with
  capacity - 1 entries). Consequently, adding capacity + 1 distinct coordinates to a new
  cache leaves exactly capacity entries, all but the first-inserted coordinate.
\<close>

theorem add_chunk_full_evicts_oldest:
  fixes cap :: int
  assumes "1 \<le> cap"
  shows "(\<forall>m x y d. max_chunks m = cap \<and> int (length (chunks m)) = cap \<and> distinct (keys m) \<longrightarrow>
            (\<exists>oldest rest m'. chunks m = oldest # rest \<and> add_chunk conv x y d m = Inr m' \<and>
               chunks m' = setitem (x, y) (optimize conv d) rest \<and>
               (x, y) \<in> set (keys m') \<and>
               ((x, y) \<noteq> fst oldest \<longrightarrow> fst oldest \<notin> set (keys m')) \<and>
               ((x, y) \<in> set (keys m) \<and> (x, y) \<noteq> fst oldest \<longrightarrow>
                  int (length (chunks m')) = cap - 1)))
       \<and> (\<forall>kds. distinct (map fst kds) \<and> int (length kds) = cap + 1 \<longrightarrow>
            (\<exists>m'. add_chunks conv kds (ChunkManager_init cap) = Inr m' \<and>
               keys m' = tl (map fst kds) \<and> int (length (chunks m')) = cap \<and>
               fst (hd kds) \<notin> set (keys m')))"
proof (intro conjI allI impI)
  fix m x y d
  assume a: "max_chunks m = cap \<and> int (length (chunks m)) = cap \<and> distinct (keys m)"
  then obtain oldest rest where er: "chunks m = oldest # rest"
    "add_chunk conv x y d m = Inr (m\<lparr>chunks := setitem (x, y) (optimize conv d) rest\<rparr>)"
    using add_chunk_full[where m = m and x = x and y = y and d = d and conv = conv] assms by auto
  let ?m' = "m\<lparr>chunks := setitem (x, y) (optimize conv d) rest\<rparr>"
  have k: "keys ?m' = (if (x, y) \<in> fst ` set rest then map fst rest else map fst rest @ [(x, y)])"
    by (simp add: keys_def keys_setitem)
  have nd: "fst oldest \<notin> fst ` set rest" using a er by (auto simp: keys_def)
  have 1: "(x, y) \<in> set (keys ?m')" using setitem_mem[of "(x, y)"] by (simp add: keys_def)
  have 2: "(x, y) \<noteq> fst oldest \<longrightarrow> fst oldest \<notin> set (keys ?m')"
    using nd k by auto
  have 3: "(x, y) \<in> set (keys m) \<and> (x, y) \<noteq> fst oldest \<longrightarrow> int (length (chunks ?m')) = cap - 1"
    using a er by (auto simp: keys_def length_setitem)
  show "\<exists>oldest rest m'. chunks m = oldest # rest \<and> add_chunk conv x y d m = Inr m' \<and>
               chunks m' = setitem (x, y) (optimize conv d) rest \<and>
               (x, y) \<in> set (keys m') \<and>
               ((x, y) \<noteq> fst oldest \<longrightarrow> fst oldest \<notin> set (keys m')) \<and>
               ((x, y) \<in> set (keys m) \<and> (x, y) \<noteq> fst oldest \<longrightarrow>
                  int (length (chunks m')) = cap - 1)"
    using er 1 2 3 by (intro exI[of _ oldest] exI[of _ rest] exI[of _ ?m']) simp
next
  fix kds :: "(coord \<times> chunk_data) list"
  assume a: "distinct (map fst kds) \<and> int (length kds) = cap + 1"
  let ?m0 = "ChunkManager_init cap"
  have "\<exists>m'. add_chunks conv kds ?m0 = Inr m' \<and> max_chunks m' = max_chunks ?m0 \<and>
           keys m' = drop (length (keys ?m0 @ map fst kds) - nat (max_chunks ?m0)) (keys ?m0 @ map fst kds)"
    using a assms by (intro add_chunks_distinct) (simp_all add: ChunkManager_init_def keys_def)
  then obtain m' where m': "add_chunks conv kds ?m0 = Inr m'"
    "keys m' = drop (length kds - nat cap) (map fst kds)"
    by (auto simp: ChunkManager_init_def keys_def)
  have len: "length kds = Suc (nat cap)" using a assms by linarith
  then obtain kd rest where kr: "kds = kd # rest" by (cases kds) auto
  have k: "keys m' = tl (map fst kds)" using m'(2) len kr by simp
  have "length (keys m') = nat cap" using k len by simp
  then have l: "int (length (chunks m')) = cap" using assms by (simp add: keys_def)
  have "fst (hd kds) \<notin> set (keys m')" using k a kr by auto
  then show "\<exists>m'. add_chunks conv kds ?m0 = Inr m' \<and>
               keys m' = tl (map fst kds) \<and> int (length (chunks m')) = cap \<and>
               fst (hd kds) \<notin> set (keys m')"
    using m'(1) k l by blast
qed

text \<open>The theorem at capacity 2 and the coordinates (0,0), (0,1), (1,1).\<close>

theorem add_chunk_full_evicts_oldest_witness:
  "(1::int) \<le> 2 \<and>
   (\<exists>m'. add_chunks zero_cast [((0, 0), chunk0), ((0, 1), chunk0), ((1, 1), chunk0)] (ChunkManager_init 2) = Inr m' \<and>
      keys m' = [(0, 1), (1, 1)] \<and> int (length (chunks m')) = 2 \<and> (0, 0) \<notin> set (keys m'))"
  using add_chunk_full_evicts_oldest[where cap = 2 and conv = zero_cast, THEN conjunct2, rule_format,
      of "[((0, 0), chunk0), ((0, 1), chunk0), ((1, 1), chunk0)]"]
  by simp

subsection \<open>Recency\<close>

text \<open>
  Claim C7. A successful \<open>get_chunk\<close> moves its entry to the most-recent end before
  returning; with capacity 2, the sequence put A, put B, get A, put C leaves A and C in
  the cache: B is the entry evicted.
\<close>

theorem get_chunk_marks_most_recent:
  "(\<forall>(m::ChunkManager) x y c. getitem (chunks m) (x, y) = Some c \<longrightarrow>
      fst (get_chunk x y m) = Some (restore c) \<and>
      keys (snd (get_chunk x y m)) = filter (\<lambda>k. k \<noteq> (x, y)) (keys m) @ [(x, y)] \<and>
      last (chunks (snd (get_chunk x y m))) = ((x, y), c))
   \<and> (\<forall>A B C dA dB dC. distinct [A, B, C] \<longrightarrow>
      (\<exists>m1 m2 m3 m4.
         add_chunk conv (fst A) (snd A) dA (ChunkManager_init 2) = Inr m1 \<and>
         add_chunk conv (fst B) (snd B) dB m1 = Inr m2 \<and>
         get_chunk (fst A) (snd A) m2 = (Some (restore (optimize conv dA)), m3) \<and>
         add_chunk conv (fst C) (snd C) dC m3 = Inr m4 \<and>
         keys m2 = [A, B] \<and> keys m3 = [B, A] \<and> keys m4 = [A, C]))"
proof (intro conjI allI impI)
  fix m :: ChunkManager and x y c
  assume a: "getitem (chunks m) (x, y) = Some c"
  show "fst (get_chunk x y m) = Some (restore c)"
    using a by (simp add: get_chunk_def)
  show "keys (snd (get_chunk x y m)) = filter (\<lambda>k. k \<noteq> (x, y)) (keys m) @ [(x, y)]"
    using a by (simp add: get_chunk_def keys_def keys_move_to_end)
  show "last (chunks (snd (get_chunk x y m))) = ((x, y), c)"
    using a by (simp add: get_chunk_def move_to_end_def)
next
  fix A B C :: coord and dA dB dC :: chunk_data
  assume d: "distinct [A, B, C]"
  obtain ax ay bx "by" cx cy where c: "A = (ax, ay)" "B = (bx, by)" "C = (cx, cy)"
    by (metis prod.exhaust)
  show "\<exists>m1 m2 m3 m4.
         add_chunk conv (fst A) (snd A) dA (ChunkManager_init 2) = Inr m1 \<and>
         add_chunk conv (fst B) (snd B) dB m1 = Inr m2 \<and>
         get_chunk (fst A) (snd A) m2 = (Some (restore (optimize conv dA)), m3) \<and>
         add_chunk conv (fst C) (snd C) dC m3 = Inr m4 \<and>
         keys m2 = [A, B] \<and> keys m3 = [B, A] \<and> keys m4 = [A, C]"
    using d unfolding c
    by (auto simp: add_chunk_def get_chunk_def ChunkManager_init_def keys_def move_to_end_def)
qed


text \<open>The scenario at A = (0,0), B = (0,1), C = (1,1).\<close>

theorem get_chunk_marks_most_recent_witness:
  "(\<exists>m1 m2 m3 m4.
         add_chunk zero_cast 0 0 chunk0 (ChunkManager_init 2) = Inr m1 \<and>
         add_chunk zero_cast 0 1 chunk0 m1 = Inr m2 \<and>
         get_chunk 0 0 m2 = (Some (restore (optimize zero_cast chunk0)), m3) \<and>
         add_chunk zero_cast 1 1 chunk0 m3 = Inr m4 \<and>
         keys m2 = [(0, 0), (0, 1)] \<and> keys m3 = [(0, 1), (0, 0)] \<and> keys m4 = [(0, 0), (1, 1)])"
  using get_chunk_marks_most_recent[where conv = zero_cast, THEN conjunct2, rule_format,
      of "(0, 0)" "(0, 1)" "(1, 1)" chunk0 chunk0 chunk0]
  by simp

subsection \<open>Quantization\<close>




text \<open>
  Claim C4. For a height \<open>h\<close> in \<open>[0, 1]\<close>, decoding the byte that \<open>add_chunk\<close>
  stores gives a value within \<open>1/255\<close> of \<open>h\<close>; and a \<open>get_chunk\<close> after a
  successful \<open>add_chunk\<close> of the same coordinate returns the height grid decoded cell by
  cell from the stored bytes, and the water and biome grids unchanged.
\<close>

theorem put_get_round_trip:
  "(0 \<le> h \<and> h \<le> 1 \<longrightarrow>
      (\<exists>h'. dequantize (quantize conv (Fin h)) = Fin h' \<and> \<bar>h' - h\<bar> \<le> 1 / 255))
   \<and> (add_chunk conv x y d m = Inr m' \<longrightarrow>
      (\<exists>d'. fst (get_chunk x y m') = Some d' \<and>
         height d' = map (map (\<lambda>h. dequantize (quantize conv h))) (height d) \<and>
         water d' = water d \<and> biome d' = biome d))"
proof (intro conjI impI)
  assume a: "0 \<le> h \<and> h \<le> 1"
  have q: "dequantize (quantize conv (Fin h)) = Fin (real_of_int \<lfloor>h * 255\<rfloor> / 255)"
    using a by (simp add: dequantize_def uint_quantize_unit)
  have "real_of_int \<lfloor>h * 255\<rfloor> \<le> h * 255" "h * 255 < real_of_int \<lfloor>h * 255\<rfloor> + 1"
    by linarith+
  then have "\<bar>real_of_int \<lfloor>h * 255\<rfloor> / 255 - h\<bar> \<le> 1 / 255"
    by (simp add: field_simps abs_le_iff)
  then show "\<exists>h'. dequantize (quantize conv (Fin h)) = Fin h' \<and> \<bar>h' - h\<bar> \<le> 1 / 255"
    using q by blast
next
  assume "add_chunk conv x y d m = Inr m'"
  then have "fst (get_chunk x y m') = Some (restore (optimize conv d))"
    by (rule get_after_add)
  then show "\<exists>d'. fst (get_chunk x y m') = Some d' \<and>
         height d' = map (map (\<lambda>h. dequantize (quantize conv h))) (height d) \<and>
         water d' = water d \<and> biome d' = biome d"
    by (simp add: restore_optimize)
qed


text \<open>The theorem at \<open>h = 0.5\<close> and a cache of capacity 1 holding the one-cell chunk.\<close>

theorem put_get_round_trip_witness:
  "(0::real) \<le> 1/2 \<and> (1/2::real) \<le> 1 \<and>
   (\<exists>h'. dequantize (quantize zero_cast (Fin (1/2))) = Fin h' \<and> \<bar>h' - 1/2\<bar> \<le> 1 / 255) \<and>
   add_chunk zero_cast 0 0 chunk0 (ChunkManager_init 1) = Inr \<lparr>max_chunks = 1, chunks = [((0, 0), optimize zero_cast chunk0)]\<rparr> \<and>
   (\<exists>d'. fst (get_chunk 0 0 \<lparr>max_chunks = 1, chunks = [((0, 0), optimize zero_cast chunk0)]\<rparr>) = Some d' \<and>
      height d' = [[Fin (127 / 255)]] \<and> water d' = [[False]] \<and> biome d' = [[2]])"
proof -
  have a: "add_chunk zero_cast 0 0 chunk0 (ChunkManager_init 1) = Inr \<lparr>max_chunks = 1, chunks = [((0, 0), optimize zero_cast chunk0)]\<rparr>"
    by (simp add: add_chunk_def ChunkManager_init_def)
  have q: "dequantize (quantize zero_cast (Fin (1/2))) = Fin (127 / 255)"
    by (simp add: dequantize_def quantize_def trunc_def uint_word_of_int)
  show ?thesis
    using put_get_round_trip[where h = "1/2" and conv = zero_cast and x = 0 and y = 0
        and d = chunk0 and m = "ChunkManager_init 1"
        and m' = "\<lparr>max_chunks = 1, chunks = [((0, 0), optimize zero_cast chunk0)]\<rparr>"] a q
    by (simp add: chunk0_def)
qed

section \<open>Properties of the noise generators\<close>

subsection \<open>Period of the gradient noise\<close>

lemma and_255_mod: "(a::int) AND 255 = a mod 256"
proof -
  have "(255::int) = mask 8" by (simp add: mask_eq_exp_minus_1)
  then have "a AND 255 = take_bit 8 a" by (simp add: take_bit_eq_mask)
  then show ?thesis by (simp add: take_bit_eq_mod)
qed

lemma floor_shift: "\<lfloor>x + 256 * of_int k\<rfloor> = \<lfloor>x::real\<rfloor> + 256 * k"
proof -
  have "x + 256 * of_int k = x + of_int (256 * k)" by simp
  then show ?thesis by (metis floor_add_int)
qed

lemma lattice_shift: "\<lfloor>x + 256 * of_int k\<rfloor> AND 255 = \<lfloor>x::real\<rfloor> AND 255"
  by (simp add: floor_shift and_255_mod)

lemma frac_shift: "x + 256 * of_int k - of_int \<lfloor>x + 256 * of_int k\<rfloor> = x - of_int \<lfloor>x::real\<rfloor>"
  by (simp add: floor_shift)

text \<open>
  Claim C9. For all real \<open>x\<close>, \<open>y\<close>, \<open>z\<close>, every permutation table and every integer
  \<open>k\<close>, shifting one coordinate by \<open>256 * k\<close> does not change \<open>noise\<close> (including
  whether the table lookups succeed): the lattice coordinates are masked with
  \<open>AND 255\<close> and the fractional parts are unchanged.
\<close>

theorem noise_period_256:
  "noise P (x + 256 * of_int k) y z = noise P x y z \<and>
   noise P x (y + 256 * of_int k) z = noise P x y z \<and>
   noise P x y (z + 256 * of_int k) = noise P x y z"
  unfolding noise_def lattice_shift frac_shift by (rule conjI refl)+

subsection \<open>The permutation table after a seeded value noise\<close>

text \<open>
  Claim C10. \<open>ValueNoise(seed=s)\<close> leaves the global generator in the state
  \<open>seed_int s\<close>, whatever it was before; so the table of a \<open>PerlinNoise\<close> constructed
  next is the shuffle from that state, a function of \<open>s\<close> alone, the same for any two
  such sequences; in particular the table of a \<open>WorldGenerator\<close> constructed right after
  a first one seeded with \<open>s\<close> does not depend on the prior state or on any other
  argument of either constructor.
\<close>

theorem perlin_table_after_seed:
  "fst (PerlinNoise_init R (snd (ValueNoise_init R (Some s) g))) =
     \<lparr>permutation = fst (shuffle R [0..255] (seed_int R s)) @ fst (shuffle R [0..255] (seed_int R s))\<rparr>
   \<and> fst (PerlinNoise_init R (snd (ValueNoise_init R (Some s) g))) =
       fst (PerlinNoise_init R (snd (ValueNoise_init R (Some s) g')))
   \<and> perlin (fst (WorldGenerator_init R n2 seed2 wl2 (snd (WorldGenerator_init R n1 (Some s) wl1 g)))) =
       perlin (fst (WorldGenerator_init R n2' seed2' wl2' (snd (WorldGenerator_init R n1' (Some s) wl1' g'))))"
  by (simp add: PerlinNoise_init_def ValueNoise_init_def WorldGenerator_init_def random_seed_def
      case_prod_unfold Let_def)

subsection \<open>The smoothed value noise\<close>

lemma trunc_of_int: "trunc (of_int n) = n"
  by (simp add: trunc_def)

lemma get_value_step:
  assumes "get_value R x y (V, g) = (r, (V', g'))"
  shows "grid V' (trunc x, trunc y) = Some r" and "grid V \<subseteq>\<^sub>m grid V'"
    and "unit_range V \<Longrightarrow> (\<forall>g. 0 \<le> fst (random R g) \<and> fst (random R g) < 1) \<Longrightarrow>
           unit_range V' \<and> 0 \<le> r \<and> r < 1"
proof -
  show "grid V' (trunc x, trunc y) = Some r"
    using assms by (auto simp: get_value_def Let_def split: option.splits prod.splits)
  show "grid V \<subseteq>\<^sub>m grid V'"
    using assms by (auto simp: get_value_def Let_def map_le_def split: option.splits prod.splits)
  assume u: "unit_range V" and rr: "\<forall>g. 0 \<le> fst (random R g) \<and> fst (random R g) < 1"
  show "unit_range V' \<and> 0 \<le> r \<and> r < 1"
  proof (cases "grid V (trunc x, trunc y)")
    case None
    obtain r0 g0 where rg: "random R g = (r0, g0)" by (cases "random R g")
    then have "0 \<le> r0 \<and> r0 < 1" using rr by (metis fst_conv)
    moreover have "r = r0" "V' = V\<lparr>grid := (grid V)((trunc x, trunc y) \<mapsto> r0)\<rparr>"
      using assms None rg by (auto simp: get_value_def Let_def)
    ultimately show ?thesis using u by (auto simp: unit_range_def)
  next
    case (Some v)
    then have "r = v" "V' = V" using assms by (auto simp: get_value_def Let_def)
    then show ?thesis using u Some by (auto simp: unit_range_def)
  qed
qed

lemma map_le_Some: "m \<subseteq>\<^sub>m m' \<Longrightarrow> m k = Some v \<Longrightarrow> m' k = Some v"
  by (metis domI map_le_def)

text \<open>
  Claim C8. \<open>smooth_noise x y\<close> returns the fixed-weight average of lattice values: the
  four floor/ceil corner values divided by 16, the four side values (floor/ceil on one
  axis, the truncated coordinate on the other) divided by 8, and the value at the
  truncated \<open>(x, y)\<close> divided by 4, where the lattice values are those memoized in the
  grid after the call (which extends the grid before it). When the values already
  memoized and the values drawn from \<open>random\<close> lie in \<open>[0, 1)\<close>, so does the result, and
  the grid keeps that property.
\<close>

theorem smooth_noise_lattice_average:
  assumes "smooth_noise R x y (V, g) = (r, (V', g'))"
  shows "\<exists>c1 c2 c3 c4 e1 e2 e3 e4 m.
      grid V' (\<lfloor>x\<rfloor>, \<lfloor>y\<rfloor>) = Some c1 \<and> grid V' (\<lfloor>x\<rfloor>, \<lceil>y\<rceil>) = Some c2 \<and>
      grid V' (\<lceil>x\<rceil>, \<lfloor>y\<rfloor>) = Some c3 \<and> grid V' (\<lceil>x\<rceil>, \<lceil>y\<rceil>) = Some c4 \<and>
      grid V' (\<lfloor>x\<rfloor>, trunc y) = Some e1 \<and> grid V' (trunc x, \<lfloor>y\<rfloor>) = Some e2 \<and>
      grid V' (\<lceil>x\<rceil>, trunc y) = Some e3 \<and> grid V' (trunc x, \<lceil>y\<rceil>) = Some e4 \<and>
      grid V' (trunc x, trunc y) = Some m \<and>
      r = (c1 + c2 + c3 + c4) / 16 + (e1 + e2 + e3 + e4) / 8 + m / 4 \<and>
      grid V \<subseteq>\<^sub>m grid V' \<and>
      (unit_range V \<and> (\<forall>g. 0 \<le> fst (random R g) \<and> fst (random R g) < 1) \<longrightarrow>
         0 \<le> r \<and> r < 1 \<and> unit_range V')"
proof -
  obtain c1 V1 g1 where 1: "get_value R (of_int \<lfloor>x\<rfloor>) (of_int \<lfloor>y\<rfloor>) (V, g) = (c1, (V1, g1))"
    by (metis prod.exhaust)
  obtain c2 V2 g2 where 2: "get_value R (of_int \<lfloor>x\<rfloor>) (of_int \<lceil>y\<rceil>) (V1, g1) = (c2, (V2, g2))"
    by (metis prod.exhaust)
  obtain c3 V3 g3 where 3: "get_value R (of_int \<lceil>x\<rceil>) (of_int \<lfloor>y\<rfloor>) (V2, g2) = (c3, (V3, g3))"
    by (metis prod.exhaust)
  obtain c4 V4 g4 where 4: "get_value R (of_int \<lceil>x\<rceil>) (of_int \<lceil>y\<rceil>) (V3, g3) = (c4, (V4, g4))"
    by (metis prod.exhaust)
  obtain e1 V5 g5 where 5: "get_value R (of_int \<lfloor>x\<rfloor>) y (V4, g4) = (e1, (V5, g5))"
    by (metis prod.exhaust)
  obtain e2 V6 g6 where 6: "get_value R x (of_int \<lfloor>y\<rfloor>) (V5, g5) = (e2, (V6, g6))"
    by (metis prod.exhaust)
  obtain e3 V7 g7 where 7: "get_value R (of_int \<lceil>x\<rceil>) y (V6, g6) = (e3, (V7, g7))"
    by (metis prod.exhaust)
  obtain e4 V8 g8 where 8: "get_value R x (of_int \<lceil>y\<rceil>) (V7, g7) = (e4, (V8, g8))"
    by (metis prod.exhaust)
  obtain m V9 g9 where 9: "get_value R x y (V8, g8) = (m, (V9, g9))"
    by (metis prod.exhaust)
  have sn: "smooth_noise R x y (V, g) =
      ((c1 + c2 + c3 + c4) / 16 + (e1 + e2 + e3 + e4) / 8 + m / 4, (V9, g9))"
    by (simp add: smooth_noise_def 1 2 3 4 5 6 7 8 9)
  then have r: "r = (c1 + c2 + c3 + c4) / 16 + (e1 + e2 + e3 + e4) / 8 + m / 4" and V': "V' = V9"
    using assms by simp_all
  note st = get_value_step
  have le9: "grid V8 \<subseteq>\<^sub>m grid V9" by (rule st(2)[OF 9])
  have le8: "grid V7 \<subseteq>\<^sub>m grid V9" using st(2)[OF 8] le9 by (rule map_le_trans)
  have le7: "grid V6 \<subseteq>\<^sub>m grid V9" using st(2)[OF 7] le8 by (rule map_le_trans)
  have le6: "grid V5 \<subseteq>\<^sub>m grid V9" using st(2)[OF 6] le7 by (rule map_le_trans)
  have le5: "grid V4 \<subseteq>\<^sub>m grid V9" using st(2)[OF 5] le6 by (rule map_le_trans)
  have le4: "grid V3 \<subseteq>\<^sub>m grid V9" using st(2)[OF 4] le5 by (rule map_le_trans)
  have le3: "grid V2 \<subseteq>\<^sub>m grid V9" using st(2)[OF 3] le4 by (rule map_le_trans)
  have le2: "grid V1 \<subseteq>\<^sub>m grid V9" using st(2)[OF 2] le3 by (rule map_le_trans)
  have le1: "grid V \<subseteq>\<^sub>m grid V9" using st(2)[OF 1] le2 by (rule map_le_trans)
  have k1: "grid V9 (\<lfloor>x\<rfloor>, \<lfloor>y\<rfloor>) = Some c1"
    using map_le_Some[OF le2 st(1)[OF 1]] by (simp add: trunc_of_int)
  have k2: "grid V9 (\<lfloor>x\<rfloor>, \<lceil>y\<rceil>) = Some c2"
    using map_le_Some[OF le3 st(1)[OF 2]] by (simp add: trunc_of_int)
  have k3: "grid V9 (\<lceil>x\<rceil>, \<lfloor>y\<rfloor>) = Some c3"
    using map_le_Some[OF le4 st(1)[OF 3]] by (simp add: trunc_of_int)
  have k4: "grid V9 (\<lceil>x\<rceil>, \<lceil>y\<rceil>) = Some c4"
    using map_le_Some[OF le5 st(1)[OF 4]] by (simp add: trunc_of_int)
  have k5: "grid V9 (\<lfloor>x\<rfloor>, trunc y) = Some e1"
    using map_le_Some[OF le6 st(1)[OF 5]] by (simp add: trunc_of_int)
  have k6: "grid V9 (trunc x, \<lfloor>y\<rfloor>) = Some e2"
    using map_le_Some[OF le7 st(1)[OF 6]] by (simp add: trunc_of_int)
  have k7: "grid V9 (\<lceil>x\<rceil>, trunc y) = Some e3"
    using map_le_Some[OF le8 st(1)[OF 7]] by (simp add: trunc_of_int)
  have k8: "grid V9 (trunc x, \<lceil>y\<rceil>) = Some e4"
    using map_le_Some[OF le9 st(1)[OF 8]] by (simp add: trunc_of_int)
  have k9: "grid V9 (trunc x, trunc y) = Some m"
    by (rule st(1)[OF 9])
  have rng: "0 \<le> r \<and> r < 1 \<and> unit_range V9"
    if u: "unit_range V" and rr: "\<forall>g. 0 \<le> fst (random R g) \<and> fst (random R g) < 1"
  proof -
    have u1: "unit_range V1 \<and> 0 \<le> c1 \<and> c1 < 1" using st(3)[OF 1 u rr] .
    have u2: "unit_range V2 \<and> 0 \<le> c2 \<and> c2 < 1" using st(3)[OF 2 _ rr] u1 by blast
    have u3: "unit_range V3 \<and> 0 \<le> c3 \<and> c3 < 1" using st(3)[OF 3 _ rr] u2 by blast
    have u4: "unit_range V4 \<and> 0 \<le> c4 \<and> c4 < 1" using st(3)[OF 4 _ rr] u3 by blast
    have u5: "unit_range V5 \<and> 0 \<le> e1 \<and> e1 < 1" using st(3)[OF 5 _ rr] u4 by blast
    have u6: "unit_range V6 \<and> 0 \<le> e2 \<and> e2 < 1" using st(3)[OF 6 _ rr] u5 by blast
    have u7: "unit_range V7 \<and> 0 \<le> e3 \<and> e3 < 1" using st(3)[OF 7 _ rr] u6 by blast
    have u8: "unit_range V8 \<and> 0 \<le> e4 \<and> e4 < 1" using st(3)[OF 8 _ rr] u7 by blast
    have u9: "unit_range V9 \<and> 0 \<le> m \<and> m < 1" using st(3)[OF 9 _ rr] u8 by blast
    have "0 \<le> r" unfolding r using u1 u2 u3 u4 u5 u6 u7 u8 u9 by simp
    moreover have "c1 < 1" "c2 < 1" "c3 < 1" "c4 < 1" "e1 < 1" "e2 < 1" "e3 < 1" "e4 < 1" "m < 1"
      using u1 u2 u3 u4 u5 u6 u7 u8 u9 by simp_all
    then have "(c1 + c2 + c3 + c4) / 16 + (e1 + e2 + e3 + e4) / 8 + m / 4 < 1"
      by (simp add: field_simps)
    then have "r < 1" unfolding r .
    ultimately show ?thesis using u9 by simp
  qed
  show ?thesis
    unfolding V' using k1 k2 k3 k4 k5 k6 k7 k8 k9 r le1 rng by blast
qed

text \<open>The theorem at \<open>x = 0.5\<close>, \<open>y = -0.5\<close>, a new lattice and the concrete generator.\<close>

lemma lcg_random_range: "0 \<le> fst (random lcg g) \<and> fst (random lcg g) < 1"
proof -
  have "0 \<le> lcg_next g" "lcg_next g < 2147483648" by (simp_all add: lcg_next_def)
  then show ?thesis by (simp add: lcg_def Let_def)
qed

lemma smooth_noise_example:
  "smooth_noise lcg (1 / 2) (- 1 / 2) (\<lparr>grid = Map.empty\<rparr>, 42) =
     (4951227407 / 8589934592,
      (\<lparr>grid = [(0, - 1) \<mapsto> 1250496027 / 2147483648, (0, 0) \<mapsto> 139537783 / 268435456,
                (1, - 1) \<mapsto> 1000676753 / 2147483648, (1, 0) \<mapsto> 834337403 / 1073741824]\<rparr>,
       1668674806))"
  by (simp add: smooth_noise_def get_value_def trunc_def lcg_def lcg_next_def Let_def ceiling_def)

theorem smooth_noise_lattice_average_witness:
  "smooth_noise lcg (1 / 2) (- 1 / 2) (\<lparr>grid = Map.empty\<rparr>, 42) =
     (4951227407 / 8589934592,
      (\<lparr>grid = [(0, - 1) \<mapsto> 1250496027 / 2147483648, (0, 0) \<mapsto> 139537783 / 268435456,
                (1, - 1) \<mapsto> 1000676753 / 2147483648, (1, 0) \<mapsto> 834337403 / 1073741824]\<rparr>,
       1668674806)) \<and>
   unit_range \<lparr>grid = Map.empty\<rparr> \<and>
   (\<forall>g. 0 \<le> fst (random lcg g) \<and> fst (random lcg g) < 1) \<and>
   (4951227407 / 8589934592 :: real) =
     (1250496027 / 2147483648 + 139537783 / 268435456 + 1000676753 / 2147483648 + 834337403 / 1073741824) / 16 +
     (1250496027 / 2147483648 + 139537783 / 268435456 + 834337403 / 1073741824 + 139537783 / 268435456) / 8 +
     (139537783 / 268435456) / 4 \<and>
   (0 :: real) \<le> 4951227407 / 8589934592 \<and> (4951227407 / 8589934592 :: real) < 1"
  using smooth_noise_lattice_average[OF smooth_noise_example] lcg_random_range smooth_noise_example
  by (simp add: unit_range_def)

section \<open>Properties of the terrain generator\<close>

subsection \<open>Biome classification\<close>

lemma map2_same: "map2 f (map g xs) (map h xs) = map (\<lambda>x. f (g x) (h x)) xs"
  by (induction xs) simp_all

lemma grid_map2_same:
  "map2 (map2 f) (map (map g) rows) (map (map h) rows) = map (map (\<lambda>x. f (g x) (h x))) rows"
  by (induction rows) (simp_all add: map2_same)

lemma gnot_cells: "gnot (map (map p) hm) = map (map (\<lambda>h. \<not> p h)) hm"
  by (simp add: gnot_def comp_def)

lemma gand_cells: "gand (map (map p) hm) (map (map q) hm) = map (map (\<lambda>h. p h \<and> q h)) hm"
  by (simp add: gand_def grid_map2_same)

lemma assign_where_cells:
  "assign_where (map (map p) hm) v (map (map b) hm) = map (map (\<lambda>h. if p h then v else b h)) hm"
  by (simp add: assign_where_def grid_map2_same)

lemma generate_biomes_cells:
  "generate_biomes G hm (glt hm (water_level G)) = map (map (assigned_biome (water_level G))) hm"
proof -
  have "generate_biomes G hm (glt hm (water_level G)) =
      map (map (\<lambda>h.
        if \<not> flt h (water_level G) \<and> fge h (85 / 100) then 4
        else if (\<not> flt h (water_level G) \<and> fge h (65 / 100)) \<and> flt h (85 / 100) then 3
        else if (\<not> flt h (water_level G) \<and> fge h (water_level G + 8 / 100)) \<and> flt h (65 / 100) then 2
        else if \<not> flt h (water_level G) \<and> flt h (water_level G + 8 / 100) then 1
        else if flt h (water_level G) then 0 else 0)) hm"
    unfolding generate_biomes_def Let_def glt_def gge_def gnot_cells gand_cells assign_where_cells
    by (rule refl)
  also have "\<dots> = map (map (assigned_biome (water_level G))) hm"
  proof -
    have "(\<lambda>h.
        if \<not> flt h (water_level G) \<and> fge h (85 / 100) then 4
        else if (\<not> flt h (water_level G) \<and> fge h (65 / 100)) \<and> flt h (85 / 100) then 3
        else if (\<not> flt h (water_level G) \<and> fge h (water_level G + 8 / 100)) \<and> flt h (65 / 100) then 2
        else if \<not> flt h (water_level G) \<and> flt h (water_level G + 8 / 100) then 1
        else if flt h (water_level G) then 0 else 0) = assigned_biome (water_level G)"
    proof
      fix h show "(if \<not> flt h (water_level G) \<and> fge h (85 / 100) then 4
        else if (\<not> flt h (water_level G) \<and> fge h (65 / 100)) \<and> flt h (85 / 100) then 3
        else if (\<not> flt h (water_level G) \<and> fge h (water_level G + 8 / 100)) \<and> flt h (65 / 100) then 2
        else if \<not> flt h (water_level G) \<and> flt h (water_level G + 8 / 100) then 1
        else if flt h (water_level G) then 0 else 0) = assigned_biome (water_level G) h"
        by (cases h) (auto simp: assigned_biome_def)
    qed
    then show ?thesis by simp
  qed
  finally show ?thesis .
qed

lemma water_level_G4: "water_level G4 = 4 / 10"
  by (simp add: G4_def WorldGenerator_init_def case_prod_unfold Let_def)

lemma water_level_G7: "water_level G7 = 7 / 10"
  by (simp add: G7_def WorldGenerator_init_def case_prod_unfold Let_def)

lemma generate_chunk_biome:
  assumes "generate_chunk R G x_offset y_offset g = Some (c, G', g')"
  shows "water c = glt (height c) (water_level G) \<and>
         biome c = generate_biomes G (height c) (glt (height c) (water_level G))"
  using assms
  by (auto simp: generate_chunk_def Let_def split: if_splits Option.bind_splits prod.splits)

text \<open>
  Claim C6, as amended. For every height grid with its water mask \<open>height < water_level\<close>
  (as \<open>generate_chunk\<close> passes them): when \<open>water_level + 0.08 \<le> 0.65\<close>, every cell with a
  height is classified as the claim says (water cells Ocean, the others by the first
  matching rule); for every water level the biome map is the cellwise
  \<open>assigned_biome\<close> (water cells are Ocean, a later rule overrides an earlier one) and
  contains only the values 0 to 4.
\<close>

theorem biomes_first_match:
  "(water_level G + 8 / 100 \<le> 65 / 100 \<longrightarrow>
      generate_biomes G hm (glt hm (water_level G)) =
        map (map (\<lambda>h. case h of Fin a \<Rightarrow> claimed_biome (water_level G) a | NaN \<Rightarrow> 0)) hm)
   \<and> generate_biomes G hm (glt hm (water_level G)) = map (map (assigned_biome (water_level G))) hm
   \<and> (\<forall>row \<in> set (generate_biomes G hm (glt hm (water_level G))). \<forall>b \<in> set row. b \<in> {0, 1, 2, 3, 4})"
proof (intro conjI impI)
  show eq: "generate_biomes G hm (glt hm (water_level G)) = map (map (assigned_biome (water_level G))) hm"
    by (rule generate_biomes_cells)
  have "assigned_biome (water_level G) h \<in> {0, 1, 2, 3, 4}" for h
    by (cases h) (simp_all add: assigned_biome_def)
  then show "\<forall>row \<in> set (generate_biomes G hm (glt hm (water_level G))). \<forall>b \<in> set row. b \<in> {0, 1, 2, 3, 4}"
    unfolding eq by auto
  assume wl: "water_level G + 8 / 100 \<le> 65 / 100"
  have "assigned_biome (water_level G) h =
      (case h of Fin a \<Rightarrow> claimed_biome (water_level G) a | NaN \<Rightarrow> 0)" for h
    using wl by (cases h) (auto simp: assigned_biome_def claimed_biome_def)
  then show "generate_biomes G hm (glt hm (water_level G)) =
        map (map (\<lambda>h. case h of Fin a \<Rightarrow> claimed_biome (water_level G) a | NaN \<Rightarrow> 0)) hm"
    unfolding eq by simp
qed

text \<open>The theorem at water level 0.4 on a grid that meets every rule.\<close>

theorem biomes_first_match_witness:
  "water_level G4 + 8 / 100 \<le> 65 / 100 \<and>
   generate_biomes G4 [[Fin (1 / 10), Fin (45 / 100)], [Fin (7 / 10), Fin (9 / 10)], [Fin (1 / 2), NaN]]
       (glt [[Fin (1 / 10), Fin (45 / 100)], [Fin (7 / 10), Fin (9 / 10)], [Fin (1 / 2), NaN]] (water_level G4))
     = [[0, 1], [3, 4], [2, 0]] \<and>
   [3, 4] \<in> set (generate_biomes G4 [[Fin (1 / 10), Fin (45 / 100)], [Fin (7 / 10), Fin (9 / 10)], [Fin (1 / 2), NaN]]
       (glt [[Fin (1 / 10), Fin (45 / 100)], [Fin (7 / 10), Fin (9 / 10)], [Fin (1 / 2), NaN]] (water_level G4)))"
  using biomes_first_match[of G4 "[[Fin (1 / 10), Fin (45 / 100)], [Fin (7 / 10), Fin (9 / 10)], [Fin (1 / 2), NaN]]"]
  by (simp add: water_level_G4 claimed_biome_def)

text \<open>
  Counterexample to claim C6 as written: at water level 0.7 a cell of height 0.72 is not
  water and matches the Beach rule first (\<open>0.72 < 0.78\<close>), yet its biome is 3 (Forest).
\<close>

theorem biomes_first_match_counterexample:
  "water_level G7 = 7 / 10 \<and>
   glt [[Fin (72 / 100)]] (water_level G7) = [[False]] \<and>
   generate_biomes G7 [[Fin (72 / 100)]] (glt [[Fin (72 / 100)]] (water_level G7)) = [[3]] \<and>
   claimed_biome (7 / 10) (72 / 100) = 1"
  using generate_biomes_cells[of G7 "[[Fin (72 / 100)]]"]
  by (simp add: water_level_G7 assigned_biome_def claimed_biome_def glt_def)

subsection \<open>Generation returns; the degenerate chunk\<close>

lemma and_255_range: "0 \<le> (a::int) AND 255 \<and> a AND 255 \<le> 255"
  by (simp add: and_255_mod)

lemma table_lookup:
  assumes "valid_table p" "0 \<le> i" "i \<le> 511"
  shows "\<exists>v. list_getitem p i = Some v \<and> 0 \<le> v \<and> v \<le> 255"
proof -
  have "nat i < length p" using assms by (simp add: valid_table_def)
  then have "p ! nat i \<in> set p" by simp
  then show ?thesis using assms by (auto simp: list_getitem_def valid_table_def Let_def)
qed

lemma noise_total:
  assumes vt: "valid_table (permutation P)"
  shows "\<exists>r. noise P x y z = Some r"
proof -
  let ?p = "permutation P"
  let ?X = "\<lfloor>x\<rfloor> AND 255" and ?Y = "\<lfloor>y\<rfloor> AND 255" and ?Z = "\<lfloor>z\<rfloor> AND 255"
  note r = and_255_range
  note tl = table_lookup[OF vt]
  obtain pX where pX: "list_getitem ?p ?X = Some pX" "0 \<le> pX" "pX \<le> 255"
    using tl[of ?X] r[of "\<lfloor>x\<rfloor>"] by auto
  obtain pA where pA: "list_getitem ?p (pX + ?Y) = Some pA" "0 \<le> pA" "pA \<le> 255"
    using tl[of "pX + ?Y"] pX r[of "\<lfloor>y\<rfloor>"] by auto
  obtain pA1 where pA1: "list_getitem ?p (pX + ?Y + 1) = Some pA1" "0 \<le> pA1" "pA1 \<le> 255"
    using tl[of "pX + ?Y + 1"] pX r[of "\<lfloor>y\<rfloor>"] by auto
  obtain pX1 where pX1: "list_getitem ?p (?X + 1) = Some pX1" "0 \<le> pX1" "pX1 \<le> 255"
    using tl[of "?X + 1"] r[of "\<lfloor>x\<rfloor>"] by auto
  obtain pB where pB: "list_getitem ?p (pX1 + ?Y) = Some pB" "0 \<le> pB" "pB \<le> 255"
    using tl[of "pX1 + ?Y"] pX1 r[of "\<lfloor>y\<rfloor>"] by auto
  obtain pB1 where pB1: "list_getitem ?p (pX1 + ?Y + 1) = Some pB1" "0 \<le> pB1" "pB1 \<le> 255"
    using tl[of "pX1 + ?Y + 1"] pX1 r[of "\<lfloor>y\<rfloor>"] by auto
  have h: "\<exists>v. list_getitem ?p (q + ?Z) = Some v" "\<exists>v. list_getitem ?p (q + ?Z + 1) = Some v"
    if "0 \<le> q" "q \<le> 255" for q
    using tl[of "q + ?Z"] tl[of "q + ?Z + 1"] that r[of "\<lfloor>z\<rfloor>"] by auto
  obtain hAA hBA hAB hBB hAA1 hBA1 hAB1 hBB1 where hs:
    "list_getitem ?p (pA + ?Z) = Some hAA" "list_getitem ?p (pB + ?Z) = Some hBA"
    "list_getitem ?p (pA1 + ?Z) = Some hAB" "list_getitem ?p (pB1 + ?Z) = Some hBB"
    "list_getitem ?p (pA + ?Z + 1) = Some hAA1" "list_getitem ?p (pB + ?Z + 1) = Some hBA1"
    "list_getitem ?p (pA1 + ?Z + 1) = Some hAB1" "list_getitem ?p (pB1 + ?Z + 1) = Some hBB1"
    using h[OF pA(2,3)] h[OF pB(2,3)] h[OF pA1(2,3)] h[OF pB1(2,3)] by auto
  show ?thesis
    by (simp add: noise_def Let_def pX pA pA1 pX1 pB pB1 hs)
qed

lemma octave_sample_total:
  assumes "valid_table (permutation (perlin G))"
  shows "\<exists>v s'. octave_sample R G scale weight x_offset y_offset y x s = Some (v, s')"
proof -
  obtain n1 where n1: "noise (perlin G) (of_int (x + x_offset * chunk_size G) / scale)
      (of_int (y + y_offset * chunk_size G) / scale) 0 = Some n1"
    using noise_total[OF assms] by blast
  obtain n2 where n2: "noise (perlin G) (of_int (x + x_offset * chunk_size G) / (scale * (3 / 10)))
      (of_int (y + y_offset * chunk_size G) / (scale * (3 / 10))) 0 = Some n2"
    using noise_total[OF assms] by blast
  show ?thesis
    unfolding octave_sample_def Let_def n1 n2 by (simp add: case_prod_unfold)
qed

lemma square_add_at:
  assumes "square n hm"
  shows "square n (add_at y x v hm)"
proof (cases "y < length hm")
  case True
  then have "length (hm ! y) = n" using assms by (simp add: square_def)
  then have "\<forall>row \<in> insert ((hm ! y)[x := hm ! y ! x + v]) (set hm). length row = n"
    using assms by (simp add: square_def)
  moreover have "set (add_at y x v hm) \<subseteq> insert ((hm ! y)[x := hm ! y ! x + v]) (set hm)"
    unfolding add_at_def by (rule set_update_subset_insert)
  ultimately have "\<forall>row \<in> set (add_at y x v hm). length row = n"
    by (meson subsetD)
  then show ?thesis using assms by (simp add: square_def add_at_def)
next
  case False
  then have "length hm \<le> y" by simp
  then have "hm[y := (hm ! y)[x := hm ! y ! x + v]] = hm" by (rule list_update_beyond)
  then show ?thesis using assms by (simp add: add_at_def)
qed

lemma x_loop_total:
  assumes "valid_table (permutation (perlin G))" "square n hm"
  shows "\<exists>hm' s'. x_loop R G scale weight x_offset y_offset y xs (hm, s) = Some (hm', s') \<and>
           square n hm'"
  using assms(2)
proof (induction xs arbitrary: hm s)
  case Nil
  then show ?case by simp
next
  case (Cons x xs)
  obtain v s1 where v: "octave_sample R G scale weight x_offset y_offset y x s = Some (v, s1)"
    using octave_sample_total[OF assms(1)] by blast
  show ?case
    using Cons.IH[OF square_add_at[OF Cons.prems], of "nat y" "nat x" v s1] v by simp
qed

lemma y_loop_total:
  assumes "valid_table (permutation (perlin G))" "square n hm"
  shows "\<exists>hm' s'. y_loop R G scale weight x_offset y_offset ys (hm, s) = Some (hm', s') \<and>
           square n hm'"
  using assms(2)
proof (induction ys arbitrary: hm s)
  case Nil
  then show ?case by simp
next
  case (Cons y ys)
  obtain hm1 s1 where 1:
    "x_loop R G scale weight x_offset y_offset y [0..chunk_size G - 1] (hm, s) = Some (hm1, s1)"
    "square n hm1"
    using x_loop_total[OF assms(1) Cons.prems] by blast
  show ?case using Cons.IH[OF 1(2), of s1] 1(1) by simp
qed

lemma scale_loop_total:
  assumes "valid_table (permutation (perlin G))" "square n hm"
  shows "\<exists>hm' s'. scale_loop R G x_offset y_offset scales (hm, s) = Some (hm', s') \<and>
           square n hm'"
  using assms(2)
proof (induction scales arbitrary: hm s)
  case Nil
  then show ?case by simp
next
  case (Cons sw scales)
  obtain scale weight where sw: "sw = (scale, weight)" by (cases sw)
  obtain hm1 s1 where 1:
    "y_loop R G scale weight x_offset y_offset [0..chunk_size G - 1] (hm, s) = Some (hm1, s1)"
    "square n hm1"
    using y_loop_total[OF assms(1) Cons.prems] by blast
  show ?case using Cons.IH[OF 1(2), of s1] 1(1) sw by simp
qed

lemma square_concat: "square n hm \<Longrightarrow> 0 < n \<Longrightarrow> concat hm \<noteq> []"
  by (cases hm) (auto simp: square_def)

lemma shape_height_total: "concat acc \<noteq> [] \<Longrightarrow> \<exists>h. shape_height acc = Some h"
  by (simp add: shape_height_def normalize_def Let_def)

lemma generate_chunk_total:
  assumes "valid_table (permutation (perlin G))" "1 \<le> chunk_size G"
  shows "\<exists>c G' g'. generate_chunk R G x_offset y_offset g = Some (c, G', g')"
proof -
  let ?n = "nat (chunk_size G)"
  have sq: "square ?n (replicate ?n (replicate ?n (0::real)))" by (simp add: square_def)
  obtain acc s1 where 0: "scale_loop R G x_offset y_offset (terrain_scales G)
      (replicate ?n (replicate ?n 0), (value G, g)) = Some (acc, s1)" "square ?n acc"
    using scale_loop_total[OF assms(1) sq] by blast
  obtain V g1 where "s1 = (V, g1)" by (cases s1)
  then have 1: "scale_loop R G x_offset y_offset (terrain_scales G)
      (replicate ?n (replicate ?n 0), (value G, g)) = Some (acc, (V, g1))" "square ?n acc"
    using 0 by simp_all
  have "concat acc \<noteq> []" using square_concat[OF 1(2)] assms(2) by simp
  then obtain h where "shape_height acc = Some h" using shape_height_total by blast
  then show ?thesis using 1(1) assms(2) by (simp add: generate_chunk_def Let_def)
qed

lemma shape_height_uniform:
  assumes "concat acc \<noteq> []" "Min (set (concat acc)) = Max (set (concat acc))"
  shows "shape_height acc = Some (map (map (\<lambda>_. NaN)) acc)"
  using assms by (simp add: shape_height_def normalize_def Let_def comp_def)

lemma x_loop_square:
  "x_loop R G scale weight x_offset y_offset y xs (hm, s) = Some (hm', s') \<Longrightarrow>
     square n hm \<Longrightarrow> square n hm'"
proof (induction xs arbitrary: hm s)
  case Nil
  then show ?case by simp
next
  case (Cons x xs)
  from Cons.prems(1) obtain v s1 where
    "x_loop R G scale weight x_offset y_offset y xs (add_at (nat y) (nat x) v hm, s1) = Some (hm', s')"
    by (auto split: Option.bind_splits)
  then show ?case using Cons.IH square_add_at[OF Cons.prems(2)] by blast
qed

lemma y_loop_square:
  "y_loop R G scale weight x_offset y_offset ys (hm, s) = Some (hm', s') \<Longrightarrow>
     square n hm \<Longrightarrow> square n hm'"
proof (induction ys arbitrary: hm s)
  case Nil
  then show ?case by simp
next
  case (Cons y ys)
  from Cons.prems(1) obtain hm1 s1 where
    "x_loop R G scale weight x_offset y_offset y [0..chunk_size G - 1] (hm, s) = Some (hm1, s1)"
    "y_loop R G scale weight x_offset y_offset ys (hm1, s1) = Some (hm', s')"
    by (auto split: Option.bind_splits)
  then show ?case using Cons.IH x_loop_square[OF _ Cons.prems(2)] by blast
qed

lemma scale_loop_square:
  "scale_loop R G x_offset y_offset scales (hm, s) = Some (hm', s') \<Longrightarrow>
     square n hm \<Longrightarrow> square n hm'"
proof (induction scales arbitrary: hm s)
  case Nil
  then show ?case by simp
next
  case (Cons sw scales)
  obtain scale weight where sw: "sw = (scale, weight)" by (cases sw)
  from Cons.prems(1) obtain hm1 s1 where
    "y_loop R G scale weight x_offset y_offset [0..chunk_size G - 1] (hm, s) = Some (hm1, s1)"
    "scale_loop R G x_offset y_offset scales (hm1, s1) = Some (hm', s')"
    unfolding sw by (auto split: Option.bind_splits)
  then show ?case using Cons.IH y_loop_square[OF _ Cons.prems(2)] by blast
qed

lemma square_1: "square (Suc 0) hm \<Longrightarrow> \<exists>v. hm = [[v]]"
  by (cases hm; simp add: square_def length_Suc_conv)

lemma generate_chunk_size_1:
  assumes "chunk_size G = 1" "generate_chunk R G x_offset y_offset g = Some (c, G', g')"
  shows "height c = [[NaN]] \<and> water c = [[False]] \<and> biome c = [[0]]"
proof -
  from assms obtain acc V g1 h where
    1: "scale_loop R G x_offset y_offset (terrain_scales G) ([[0]], (value G, g)) = Some (acc, (V, g1))"
    and 2: "shape_height acc = Some h"
    and 3: "c = \<lparr>height = h, water = glt h (water_level G),
                biome = generate_biomes G h (glt h (water_level G))\<rparr>"
    by (auto simp: generate_chunk_def Let_def split: Option.bind_splits)
  have "square (Suc 0) [[0::real]]" by (simp add: square_def)
  then have "square (Suc 0) acc" using scale_loop_square[OF 1] by blast
  then obtain v where acc: "acc = [[v]]" using square_1 by blast
  have "shape_height acc = Some [[NaN]]"
    using shape_height_uniform[of acc] unfolding acc by simp
  then have h: "h = [[NaN]]" using 2 by simp
  show ?thesis unfolding 3 h
    by (simp add: glt_def generate_biomes_def gnot_def gand_def gge_def assign_where_def)
qed

lemma mset_swap_list: "i < length xs \<Longrightarrow> j < length xs \<Longrightarrow> mset (swap i j xs) = mset xs"
  unfolding swap_def by (rule mset_swap)

lemma lcg_shuffle_loop_mset:
  "n \<le> length xs \<Longrightarrow> mset (fst (lcg_shuffle_loop n xs s)) = mset xs"
proof (induction n arbitrary: xs s)
  case 0
  then show ?case by simp
next
  case (Suc i)
  show ?case
  proof (cases "i = 0")
    case True
    then show ?thesis by simp
  next
    case False
    let ?j = "nat ((lcg_next s div 65536) mod (int i + 1))"
    have "(lcg_next s div 65536) mod (int i + 1) < int i + 1"
      by (rule pos_mod_bound) simp
    then have "?j < Suc i" by (simp add: nat_less_iff)
    then have "mset (swap i ?j xs) = mset xs"
      using Suc.prems by (intro mset_swap_list) simp_all
    moreover have "i \<le> length (swap i ?j xs)" using Suc.prems by (simp add: swap_def)
    ultimately show ?thesis using False Suc.IH[of "swap i ?j xs" "lcg_next s"]
      by (simp add: Let_def)
  qed
qed

lemma lcg_table_valid: "valid_table (permutation (fst (PerlinNoise_init lcg g)))"
proof -
  let ?p = "fst (lcg_shuffle_loop (length [0..255::int]) [0..255] g)"
  have m: "mset ?p = mset [0..255]" by (rule lcg_shuffle_loop_mset) simp
  then have "set ?p = set [0..255]" by (rule mset_eq_setD)
  moreover have "length ?p = length [0..255::int]" using m by (rule mset_eq_length)
  ultimately have "valid_table (?p @ ?p)" by (simp add: valid_table_def)
  then show ?thesis
    by (simp add: PerlinNoise_init_def lcg_def case_prod_unfold Let_def)
qed

lemma G1_fields: "perlin G1 = fst (PerlinNoise_init lcg 1)" "chunk_size G1 = 1"
  by (simp_all add: G1_def WorldGenerator_init_def case_prod_unfold Let_def)

text \<open>
  Claim C5 asks that a chunk whose accumulated height field is uniform comes out with a
  defined all-zero (or all-0.5) height field. The code does otherwise: whenever the
  maximum of the accumulated field equals its minimum, the shaped field is \<open>NaN\<close> in every
  cell; and every generator of chunk size 1 (one cell, so always uniform) with a
  well-formed table returns the height \<open>[[NaN]]\<close>, with no water and biome 0.
\<close>

theorem uniform_field_yields_nan:
  "(concat acc \<noteq> [] \<and> Min (set (concat acc)) = Max (set (concat acc)) \<longrightarrow>
      shape_height acc = Some (map (map (\<lambda>_. NaN)) acc))
   \<and> (valid_table (permutation (perlin G)) \<and> chunk_size G = 1 \<longrightarrow>
        (\<exists>c G' g'. generate_chunk R G x_offset y_offset g = Some (c, G', g') \<and>
           height c = [[NaN]] \<and> water c = [[False]] \<and> biome c = [[0]]))"
proof (intro conjI impI)
  assume "concat acc \<noteq> [] \<and> Min (set (concat acc)) = Max (set (concat acc))"
  then show "shape_height acc = Some (map (map (\<lambda>_. NaN)) acc)"
    using shape_height_uniform by blast
next
  assume a: "valid_table (permutation (perlin G)) \<and> chunk_size G = 1"
  then obtain c G' g' where g: "generate_chunk R G x_offset y_offset g = Some (c, G', g')"
    using generate_chunk_total[of G R x_offset y_offset g] by auto
  have "chunk_size G = 1" using a by simp
  then have "height c = [[NaN]] \<and> water c = [[False]] \<and> biome c = [[0]]"
    using g by (rule generate_chunk_size_1)
  then show "\<exists>c G' g'. generate_chunk R G x_offset y_offset g = Some (c, G', g') \<and>
           height c = [[NaN]] \<and> water c = [[False]] \<and> biome c = [[0]]"
    using g by blast
qed

text \<open>The theorem on a uniform 2 by 2 field and on the generator of chunk size 1.\<close>

theorem uniform_field_yields_nan_witness:
  "concat [[2, 2], [2, 2 :: real]] \<noteq> [] \<and>
   Min (set (concat [[2, 2], [2, 2 :: real]])) = Max (set (concat [[2, 2], [2, 2 :: real]])) \<and>
   shape_height [[2, 2], [2, 2]] = Some [[NaN, NaN], [NaN, NaN]] \<and>
   valid_table (permutation (perlin G1)) \<and> chunk_size G1 = 1 \<and>
   (\<exists>c G' g'. generate_chunk lcg G1 0 0 42 = Some (c, G', g') \<and>
      height c = [[NaN]] \<and> water c = [[False]] \<and> biome c = [[0]])"
  using uniform_field_yields_nan[of "[[2, 2], [2, 2]]" G1 lcg 0 0 42] lcg_table_valid[of 1]
  by (simp add: G1_fields)

subsection \<open>Two generators with the same seed\<close>

text \<open>The table entries that chunk (0, 0) of size 2 reads, for the two generators.\<close>

lemma table_entries_1:
  "map ((!) (fst (lcg_shuffle_loop 256 [0..255] 1))) [0, 48, 49, 1, 221, 222, 130, 209, 7, 25, 131, 210, 8, 26]
     = [48, 130, 7, 221, 209, 25, 248, 15, 77, 65, 5, 178, 17, 204]"
  by code_simp

lemma table_entries_2:
  "map ((!) (fst (lcg_shuffle_loop 256 [0..255] 1668674806))) [0, 5, 6, 1, 224, 225, 143, 217, 103, 220, 144, 218, 104, 221]
     = [5, 143, 103, 224, 217, 220, 167, 49, 115, 127, 114, 94, 189, 35]"
  by code_simp

lemma lcg_table: "permutation (fst (PerlinNoise_init lcg g)) =
    fst (lcg_shuffle_loop 256 [0..255] g) @ fst (lcg_shuffle_loop 256 [0..255] g)"
  by (simp add: PerlinNoise_init_def lcg_def case_prod_unfold Let_def)

lemma lcg_table_length: "length (fst (lcg_shuffle_loop 256 [0..255] g)) = 256"
  using mset_eq_length[OF lcg_shuffle_loop_mset[of 256 "[0..255]" g]] by simp

lemma doubled_lookup:
  "length p = 256 \<Longrightarrow> 0 \<le> i \<Longrightarrow> i < 256 \<Longrightarrow> list_getitem (p @ p) i = Some (p ! nat i)"
  by (simp add: list_getitem_def Let_def nth_append)

lemma perlin_G4: "perlin G4 = fst (PerlinNoise_init lcg 1)"
  by (simp add: G4_def WorldGenerator_init_def case_prod_unfold Let_def)

lemma perlin_G4b: "perlin G4b = fst (PerlinNoise_init lcg 1668674806)"
  by (simp add: G4b_def WorldGenerator_init_def case_prod_unfold Let_def)

lemma lookups_G4:
  "list_getitem (permutation (perlin G4)) 0 = Some 48"
  "list_getitem (permutation (perlin G4)) 48 = Some 130"
  "list_getitem (permutation (perlin G4)) 49 = Some 7"
  "list_getitem (permutation (perlin G4)) 1 = Some 221"
  "list_getitem (permutation (perlin G4)) 221 = Some 209"
  "list_getitem (permutation (perlin G4)) 222 = Some 25"
  "list_getitem (permutation (perlin G4)) 130 = Some 248"
  "list_getitem (permutation (perlin G4)) 209 = Some 15"
  "list_getitem (permutation (perlin G4)) 7 = Some 77"
  "list_getitem (permutation (perlin G4)) 25 = Some 65"
  "list_getitem (permutation (perlin G4)) 131 = Some 5"
  "list_getitem (permutation (perlin G4)) 210 = Some 178"
  "list_getitem (permutation (perlin G4)) 8 = Some 17"
  "list_getitem (permutation (perlin G4)) 26 = Some 204"
  using table_entries_1
  by (simp_all add: perlin_G4 lcg_table doubled_lookup[OF lcg_table_length])

lemma G4_fields:
  "chunk_size G4 = 2" "water_level G4 = 4 / 10" "value G4 = \<lparr>grid = Map.empty\<rparr>"
  "terrain_scales G4 = [(30, 1), (100, 8 / 10), (50, 4 / 10), (25, 2 / 10), (10, 1 / 10)]"
  by (simp_all add: G4_def WorldGenerator_init_def ValueNoise_init_def case_prod_unfold Let_def)

lemma upto_0_1: "[0..1::int] = [0, 1]"
  by (simp add: upto.simps)

lemmas eval_defs = octave_sample_def smooth_noise_def get_value_def noise_def Let_def fade_def lerp_def
  grad_def and_255_mod trunc_def ceiling_def lcg_def lcg_next_def add_at_def upto_0_1

lemma G4b_fields:
  "chunk_size G4b = 2" "water_level G4b = 4 / 10" "value G4b = \<lparr>grid = Map.empty\<rparr>"
  "terrain_scales G4b = [(30, 1), (100, 8 / 10), (50, 4 / 10), (25, 2 / 10), (10, 1 / 10)]"
  by (simp_all add: G4b_def WorldGenerator_init_def ValueNoise_init_def case_prod_unfold Let_def)

lemma lookups_G4b:
  "list_getitem (permutation (perlin G4b)) 0 = Some 5"
  "list_getitem (permutation (perlin G4b)) 5 = Some 143"
  "list_getitem (permutation (perlin G4b)) 6 = Some 103"
  "list_getitem (permutation (perlin G4b)) 1 = Some 224"
  "list_getitem (permutation (perlin G4b)) 224 = Some 217"
  "list_getitem (permutation (perlin G4b)) 225 = Some 220"
  "list_getitem (permutation (perlin G4b)) 143 = Some 167"
  "list_getitem (permutation (perlin G4b)) 217 = Some 49"
  "list_getitem (permutation (perlin G4b)) 103 = Some 115"
  "list_getitem (permutation (perlin G4b)) 220 = Some 127"
  "list_getitem (permutation (perlin G4b)) 144 = Some 114"
  "list_getitem (permutation (perlin G4b)) 218 = Some 94"
  "list_getitem (permutation (perlin G4b)) 104 = Some 189"
  "list_getitem (permutation (perlin G4b)) 221 = Some 35"
  using table_entries_2
  by (simp_all add: perlin_G4b lcg_table doubled_lookup[OF lcg_table_length])

lemma scale_loop_G4:
  "scale_loop lcg G4 0 0 (terrain_scales G4) ([[0, 0], [0, 0]], (value G4, 42)) =
     Some ([[22725332507 / 17179869184, 90767136265 / 68719476736], [9450829653907491886067677 / 6879707136000000000000000, 1209737238675753882061998504583532053 / 881596846080000000000000000000000000]],
       (\<lparr>grid = [(0, 0) \<mapsto> 1250496027 / 2147483648, (1, 0) \<mapsto> 139537783 / 268435456, (0, 1) \<mapsto> 1000676753 / 2147483648, (1, 1) \<mapsto> 834337403 / 1073741824]\<rparr>, 1668674806))"
  by (simp add: eval_defs G4_fields lookups_G4)

lemma scale_loop_G4b:
  "scale_loop lcg G4b 0 0 (terrain_scales G4b) ([[0, 0], [0, 0]], (value G4b, 42)) =
     Some ([[22725332507 / 17179869184, 77960716884304150879157 / 61152952320000000000000], [9104917348216308836724701 / 6879707136000000000000000, 15034493089139264643534790236237599 / 11754624614400000000000000000000000]],
       (\<lparr>grid = [(0, 0) \<mapsto> 1250496027 / 2147483648, (1, 0) \<mapsto> 139537783 / 268435456, (0, 1) \<mapsto> 1000676753 / 2147483648, (1, 1) \<mapsto> 834337403 / 1073741824]\<rparr>, 1668674806))"
  by (simp add: eval_defs G4b_fields lookups_G4b)

text \<open>
  The shaping of a normalised cell \<open>n\<close> in \<open>[0, 1]\<close>: since \<open>n\<^sup>2 \<le> n powr 1.4 \<le> n\<close>, small
  cells are clipped to 0 and large ones to 1.
\<close>

lemma shape_cell_low:
  assumes "0 \<le> n" "n \<le> 15 / 130"
  shows "fclip (fsub (fmul (fpower (Fin n) (14 / 10)) (13 / 10)) (15 / 100)) 0 1 = Fin 0"
proof -
  have "n powr (14 / 10) \<le> n powr 1"
    using assms by (intro powr_mono') simp_all
  then have "n powr (14 / 10) \<le> 15 / 130" using assms by simp
  then have "n powr (14 / 10) * (13 / 10) - 15 / 100 \<le> 0" by simp
  then show ?thesis using assms by (simp add: max_def min_def)
qed

lemma shape_cell_high:
  assumes "0 \<le> n" "n \<le> 1" "115 / 130 \<le> n * n"
  shows "fclip (fsub (fmul (fpower (Fin n) (14 / 10)) (13 / 10)) (15 / 100)) 0 1 = Fin 1"
proof -
  have "n powr 2 \<le> n powr (14 / 10)"
    using assms by (intro powr_mono') simp_all
  moreover have "n powr 2 = n * n" using assms by (simp add: power2_eq_square)
  ultimately have "115 / 130 \<le> n powr (14 / 10)" using assms by simp
  then have "1 \<le> n powr (14 / 10) * (13 / 10) - 15 / 100" by simp
  then show ?thesis using assms by (simp add: max_def min_def)
qed

lemma normalize_G4:
  "normalize [[22725332507 / 17179869184, 90767136265 / 68719476736], [9450829653907491886067677 / 6879707136000000000000000, 1209737238675753882061998504583532053 / 881596846080000000000000000000000000]] =
     Some [[Fin (26869057587982177734375 / 727734105341076301432229), Fin 0], [Fin 1, Fin (45292675653963775467435974065953928 / 46627572901785172008758344423828125)]]"
  by (simp add: normalize_def Let_def)

lemma shape_G4:
  "shape_height [[22725332507 / 17179869184, 90767136265 / 68719476736], [9450829653907491886067677 / 6879707136000000000000000, 1209737238675753882061998504583532053 / 881596846080000000000000000000000000]] = Some [[Fin 0, Fin 0], [Fin 1, Fin 1]]"
proof -
  have c0: "fclip (fsub (fmul (fpower (Fin (26869057587982177734375 / 727734105341076301432229)) (14 / 10)) (13 / 10)) (15 / 100)) 0 1 = Fin 0"
    by (rule shape_cell_low) simp_all
  have c1: "fclip (fsub (fmul (fpower (Fin (0)) (14 / 10)) (13 / 10)) (15 / 100)) 0 1 = Fin 0"
    by (rule shape_cell_low) simp_all
  have c2: "fclip (fsub (fmul (fpower (Fin (1)) (14 / 10)) (13 / 10)) (15 / 100)) 0 1 = Fin 1"
    by (rule shape_cell_high) simp_all
  have c3: "fclip (fsub (fmul (fpower (Fin (45292675653963775467435974065953928 / 46627572901785172008758344423828125)) (14 / 10)) (13 / 10)) (15 / 100)) 0 1 = Fin 1"
    by (rule shape_cell_high) simp_all
  show ?thesis
    unfolding shape_height_def normalize_G4 Let_def
    by (simp only: Option.bind.simps list.map c0 c1 c2 c3)
qed

lemma normalize_G4b:
  "normalize [[22725332507 / 17179869184, 77960716884304150879157 / 61152952320000000000000], [9104917348216308836724701 / 6879707136000000000000000, 15034493089139264643534790236237599 / 11754624614400000000000000000000000]] =
     Some [[Fin (659632961093455700627175 / 668673397464183725639077), Fin 0], [Fin 1, Fin (49133807559590798276516496003224 / 571245593849285081239320858984375)]]"
  by (simp add: normalize_def Let_def)

lemma shape_G4b:
  "shape_height [[22725332507 / 17179869184, 77960716884304150879157 / 61152952320000000000000], [9104917348216308836724701 / 6879707136000000000000000, 15034493089139264643534790236237599 / 11754624614400000000000000000000000]] = Some [[Fin 1, Fin 0], [Fin 1, Fin 0]]"
proof -
  have c0: "fclip (fsub (fmul (fpower (Fin (659632961093455700627175 / 668673397464183725639077)) (14 / 10)) (13 / 10)) (15 / 100)) 0 1 = Fin 1"
    by (rule shape_cell_high) simp_all
  have c1: "fclip (fsub (fmul (fpower (Fin (0)) (14 / 10)) (13 / 10)) (15 / 100)) 0 1 = Fin 0"
    by (rule shape_cell_low) simp_all
  have c2: "fclip (fsub (fmul (fpower (Fin (1)) (14 / 10)) (13 / 10)) (15 / 100)) 0 1 = Fin 1"
    by (rule shape_cell_high) simp_all
  have c3: "fclip (fsub (fmul (fpower (Fin (49133807559590798276516496003224 / 571245593849285081239320858984375)) (14 / 10)) (13 / 10)) (15 / 100)) 0 1 = Fin 0"
    by (rule shape_cell_low) simp_all
  show ?thesis
    unfolding shape_height_def normalize_G4b Let_def
    by (simp only: Option.bind.simps list.map c0 c1 c2 c3)
qed

lemma generate_chunk_G4:
  "generate_chunk lcg G4 0 0 42 =
     Some (\<lparr>height = [[Fin 0, Fin 0], [Fin 1, Fin 1]], water = [[True, True], [False, False]],
             biome = [[0, 0], [4, 4]]\<rparr>,
           G4\<lparr>value := \<lparr>grid = [(0, 0) \<mapsto> 1250496027 / 2147483648, (1, 0) \<mapsto> 139537783 / 268435456, (0, 1) \<mapsto> 1000676753 / 2147483648, (1, 1) \<mapsto> 834337403 / 1073741824]\<rparr>\<rparr>,
           1668674806)"
proof -
  have "generate_biomes G4 [[Fin 0, Fin 0], [Fin 1, Fin 1]]
      (glt [[Fin 0, Fin 0], [Fin 1, Fin 1]] (water_level G4)) = [[0, 0], [4, 4]]"
    unfolding generate_biomes_cells by (simp add: assigned_biome_def G4_fields)
  moreover have "glt [[Fin 0, Fin 0], [Fin 1, Fin 1]] (water_level G4) = [[True, True], [False, False]]"
    by (simp add: glt_def G4_fields)
  ultimately show ?thesis
    using scale_loop_G4 shape_G4
    by (simp add: generate_chunk_def Let_def G4_fields(1) numeral_2_eq_2)
qed

lemma generate_chunk_G4b:
  "generate_chunk lcg G4b 0 0 42 =
     Some (\<lparr>height = [[Fin 1, Fin 0], [Fin 1, Fin 0]], water = [[False, True], [False, True]],
             biome = [[4, 0], [4, 0]]\<rparr>,
           G4b\<lparr>value := \<lparr>grid = [(0, 0) \<mapsto> 1250496027 / 2147483648, (1, 0) \<mapsto> 139537783 / 268435456, (0, 1) \<mapsto> 1000676753 / 2147483648, (1, 1) \<mapsto> 834337403 / 1073741824]\<rparr>\<rparr>,
           1668674806)"
proof -
  have "generate_biomes G4b [[Fin 1, Fin 0], [Fin 1, Fin 0]]
      (glt [[Fin 1, Fin 0], [Fin 1, Fin 0]] (water_level G4b)) = [[4, 0], [4, 0]]"
    unfolding generate_biomes_cells by (simp add: assigned_biome_def G4b_fields)
  moreover have "glt [[Fin 1, Fin 0], [Fin 1, Fin 0]] (water_level G4b) = [[False, True], [False, True]]"
    by (simp add: glt_def G4b_fields)
  ultimately show ?thesis
    using scale_loop_G4b shape_G4b
    by (simp add: generate_chunk_def Let_def G4b_fields(1) numeral_2_eq_2)
qed

text \<open>
  Claim C1 asks that two generators freshly constructed with identical chunk size, seed
  and water level return identical chunks from \<open>generate_chunk(0, 0)\<close>. The code does
  otherwise: the constructor builds the permutation table before it seeds the global
  generator, so the table is the shuffle from whatever state preceded the construction.
  Evaluated with the concrete generator: \<open>WorldGenerator(2, 42, 0.4)\<close> constructed in
  state 1 and, after its \<open>generate_chunk(0, 0)\<close>, a second \<open>WorldGenerator(2, 42, 0.4)\<close>
  return different height, water and biome grids for chunk (0, 0).
\<close>

theorem same_seed_different_chunks:
  "perlin (fst (WorldGenerator_init R n seed wl g)) = fst (PerlinNoise_init R g) \<and>
   G4 = fst (WorldGenerator_init lcg 2 (Some 42) (4 / 10) 1) \<and>
   snd (WorldGenerator_init lcg 2 (Some 42) (4 / 10) 1) = 42 \<and>
   map_option (\<lambda>(c, G', g'). (c, g')) (generate_chunk lcg G4 0 0 42) =
     Some (\<lparr>height = [[Fin 0, Fin 0], [Fin 1, Fin 1]], water = [[True, True], [False, False]],
             biome = [[0, 0], [4, 4]]\<rparr>, 1668674806) \<and>
   G4b = fst (WorldGenerator_init lcg 2 (Some 42) (4 / 10) 1668674806) \<and>
   snd (WorldGenerator_init lcg 2 (Some 42) (4 / 10) 1668674806) = 42 \<and>
   map_option (\<lambda>(c, G', g'). (c, g')) (generate_chunk lcg G4b 0 0 42) =
     Some (\<lparr>height = [[Fin 1, Fin 0], [Fin 1, Fin 0]], water = [[False, True], [False, True]],
             biome = [[4, 0], [4, 0]]\<rparr>, 1668674806) \<and>
   map_option fst (generate_chunk lcg G4 0 0 42) \<noteq> map_option fst (generate_chunk lcg G4b 0 0 42)"
proof -
  have 1: "perlin (fst (WorldGenerator_init R n seed wl g)) = fst (PerlinNoise_init R g)"
    by (simp add: WorldGenerator_init_def case_prod_unfold Let_def)
  have 2: "snd (WorldGenerator_init lcg 2 (Some 42) (4 / 10) g0) = 42" for g0
    by (simp add: WorldGenerator_init_def ValueNoise_init_def random_seed_def lcg_def
        case_prod_unfold Let_def)
  have 3: "map_option fst (generate_chunk lcg G4 0 0 42) \<noteq> map_option fst (generate_chunk lcg G4b 0 0 42)"
    by (simp add: generate_chunk_G4 generate_chunk_G4b)
  have 4: "map_option (\<lambda>(c, G', g'). (c, g')) (generate_chunk lcg G4 0 0 42) =
     Some (\<lparr>height = [[Fin 0, Fin 0], [Fin 1, Fin 1]], water = [[True, True], [False, False]],
             biome = [[0, 0], [4, 4]]\<rparr>, 1668674806)"
    by (simp add: generate_chunk_G4)
  have 5: "map_option (\<lambda>(c, G', g'). (c, g')) (generate_chunk lcg G4b 0 0 42) =
     Some (\<lparr>height = [[Fin 1, Fin 0], [Fin 1, Fin 0]], water = [[False, True], [False, True]],
             biome = [[4, 0], [4, 0]]\<rparr>, 1668674806)"
    by (simp add: generate_chunk_G4b)
  show ?thesis
    using 1 2[of 1] 2[of 1668674806] 3 4 5 G4_def G4b_def by blast
qed

end
